theory Spec2Isabelle
  imports Main "HOL-Library.AList"
begin

section \<open>Data model of \<^verbatim>\<open>backend/server.py\<close>\<close>

text \<open>
  A \<^verbatim>\<open>date\<close> is its proleptic Gregorian ordinal (Python's \<^verbatim>\<open>date.toordinal()\<close>), so
  \<^verbatim>\<open>today - timedelta(days=7)\<close> is \<open>today - 7\<close>; \<^verbatim>\<open>today\<close> is read from the system clock and
  is far from \<^verbatim>\<open>date.min\<close>, where the subtraction would overflow. A \<^verbatim>\<open>datetime\<close> is a
  count of microseconds since the epoch. Python's \<^verbatim>\<open>int\<close> is \<open>int\<close>.

  The sessions collection stores \<^verbatim>\<open>session_date\<close> as the string \<^verbatim>\<open>date.isoformat()\<close>
  (zero-padded \<^verbatim>\<open>YYYY-MM-DD\<close>). On such strings the store's string comparison is the
  order of the dates they spell, so a stored date string is represented by that date
  (type \<open>iso_date\<close>). A stored timestamp is either the \<^verbatim>\<open>datetime\<close> object written by
  \<^verbatim>\<open>create_session\<close> or the string \<^verbatim>\<open>datetime.isoformat()\<close> written everywhere else; the
  two are different values for the store, whatever instant they denote. The store keeps a
  \<^verbatim>\<open>datetime\<close> object as a BSON datetime, a count of milliseconds: \<open>BsonDate ms\<close> holds the
  milliseconds, the microseconds below them are dropped when the document is written. The
  ISO string keeps all six digits, so \<open>IsoString t\<close> holds the microseconds \<open>t\<close>.
\<close>

type_synonym date = int
type_synonym iso_date = date
type_synonym datetime = int

datatype stored_time = BsonDate int | IsoString datetime

text \<open>Reading a \<^verbatim>\<open>datetime\<close> field of a pydantic model from either representation.\<close>

fun parse_datetime :: "stored_time \<Rightarrow> datetime" where
  "parse_datetime (BsonDate ms) = ms * 1000"
| "parse_datetime (IsoString t) = t"

definition default_user :: string where
  "default_user = ''default_user''"

record HealthSession =
  hs_id :: string
  hs_user_id :: string
  hs_session_date :: date
  hs_sitting_duration :: int
  hs_activity_duration :: int
  hs_completed :: bool
  hs_timestamp :: datetime

record HealthSessionCreate =
  hsc_sitting_duration :: int
  hsc_activity_duration :: int
  hsc_completed :: bool

record UserSettings =
  us_id :: string
  us_user_id :: string
  us_sitting_reminder_minutes :: int
  us_activity_break_minutes :: int
  us_notifications_enabled :: bool
  us_sound_alerts_enabled :: bool
  us_daily_goal_sessions :: int
  us_timestamp :: datetime

text \<open>\<^verbatim>\<open>UserSettingsUpdate\<close>: every field is \<^verbatim>\<open>Optional\<close>, \<^verbatim>\<open>None\<close> when omitted.\<close>

record UserSettingsUpdate =
  usu_sitting_reminder_minutes :: "int option"
  usu_activity_break_minutes :: "int option"
  usu_notifications_enabled :: "bool option"
  usu_sound_alerts_enabled :: "bool option"
  usu_daily_goal_sessions :: "int option"

text \<open>The documents of the two collections, as the dictionaries the code inserts.\<close>

record session_doc =
  sd_id :: string
  sd_user_id :: string
  sd_session_date :: iso_date
  sd_sitting_duration :: int
  sd_activity_duration :: int
  sd_completed :: bool
  sd_timestamp :: stored_time

record settings_doc =
  st_id :: string
  st_user_id :: string
  st_sitting_reminder_minutes :: int
  st_activity_break_minutes :: int
  st_notifications_enabled :: bool
  st_sound_alerts_enabled :: bool
  st_daily_goal_sessions :: int
  st_timestamp :: stored_time

record db =
  health_sessions :: "session_doc list"
  user_settings :: "settings_doc list"

datatype error = HTTPException nat string | TypeError | OverflowError

section \<open>The document store\<close>

text \<open>
  A collection is the list of its documents in insertion order. \<^verbatim>\<open>find(filter)\<close> yields
  the matching documents in that order and \<^verbatim>\<open>to_list(n)\<close> keeps at most \<open>n\<close> of them;
  \<^verbatim>\<open>find_one\<close> yields the first match or \<^verbatim>\<open>None\<close>; \<^verbatim>\<open>insert_one\<close> appends;
  \<^verbatim>\<open>update_one(filter, {"$set": fields})\<close> rewrites the first match only. Its result
  counts the documents matched (\<^verbatim>\<open>matched_count\<close>) and those whose content really
  changed (\<^verbatim>\<open>modified_count\<close>): a \<^verbatim>\<open>$set\<close> of the values a document already holds
  matches it without modifying it.

  The driver encodes every document it sends, for an insert and for the \<^verbatim>\<open>$set\<close> of an
  update alike, and an integer is encoded in at most 8 bytes: for an integer outside the
  signed 64-bit range the call raises \<^verbatim>\<open>OverflowError\<close> before anything reaches the store.
  Failures of the connection to the store are not modelled.
\<close>

definition bson_int :: "int \<Rightarrow> bool" where
  "bson_int v \<longleftrightarrow> - (2 ^ 63) \<le> v \<and> v \<le> 2 ^ 63 - 1"

fun bson_int_opt :: "int option \<Rightarrow> bool" where
  "bson_int_opt None = True"
| "bson_int_opt (Some v) = bson_int v"

definition find_docs :: "('a \<Rightarrow> bool) \<Rightarrow> 'a list \<Rightarrow> 'a list" where
  "find_docs flt coll = filter flt coll"

definition to_list :: "nat \<Rightarrow> 'a list \<Rightarrow> 'a list" where
  "to_list n cursor = take n cursor"

fun find_one :: "('a \<Rightarrow> bool) \<Rightarrow> 'a list \<Rightarrow> 'a option" where
  "find_one flt [] = None"
| "find_one flt (d # ds) = (if flt d then Some d else find_one flt ds)"

definition insert_one :: "'a \<Rightarrow> 'a list \<Rightarrow> 'a list" where
  "insert_one d coll = coll @ [d]"

record update_result =
  matched_count :: nat
  modified_count :: nat

fun update_one :: "('a \<Rightarrow> bool) \<Rightarrow> ('a \<Rightarrow> 'a) \<Rightarrow> 'a list \<Rightarrow> 'a list \<times> update_result" where
  "update_one flt upd [] = ([], \<lparr>matched_count = 0, modified_count = 0\<rparr>)"
| "update_one flt upd (d # ds) =
     (if flt d
      then (upd d # ds,
            \<lparr>matched_count = 1, modified_count = (if upd d = d then 0 else 1)\<rparr>)
      else (d # fst (update_one flt upd ds), snd (update_one flt upd ds)))"

section \<open>Session endpoints\<close>

text \<open>
  The clock (\<^verbatim>\<open>date.today()\<close>, \<^verbatim>\<open>datetime.utcnow()\<close>) and \<^verbatim>\<open>uuid.uuid4()\<close> are inputs of
  each operation. An operation that writes returns the store after it, also when it
  raises.
\<close>

text \<open>\<^verbatim>\<open>HealthSession(**session)\<close> on a stored document.\<close>

definition HealthSession_of :: "session_doc \<Rightarrow> HealthSession" where
  "HealthSession_of session =
     \<lparr>hs_id = sd_id session, hs_user_id = sd_user_id session,
      hs_session_date = sd_session_date session,
      hs_sitting_duration = sd_sitting_duration session,
      hs_activity_duration = sd_activity_duration session,
      hs_completed = sd_completed session,
      hs_timestamp = parse_datetime (sd_timestamp session)\<rparr>"

text \<open>
  \<^verbatim>\<open>session_obj.dict()\<close> with \<^verbatim>\<open>session_date\<close> replaced by its ISO string, as the store
  keeps it: the timestamp stays a \<^verbatim>\<open>datetime\<close> object and is written as a BSON datetime,
  the milliseconds \<open>t div 1000\<close> of the microseconds \<open>t\<close>.
\<close>

definition session_data_of :: "HealthSession \<Rightarrow> session_doc" where
  "session_data_of session_obj =
     \<lparr>sd_id = hs_id session_obj, sd_user_id = hs_user_id session_obj,
      sd_session_date = hs_session_date session_obj,
      sd_sitting_duration = hs_sitting_duration session_obj,
      sd_activity_duration = hs_activity_duration session_obj,
      sd_completed = hs_completed session_obj,
      sd_timestamp = BsonDate (hs_timestamp session_obj div 1000)\<rparr>"

text \<open>
  \<^verbatim>\<open>insert_one(session_data)\<close> raises when a duration does not fit 8 bytes; nothing is stored
  then.
\<close>

definition create_session ::
  "db \<Rightarrow> HealthSessionCreate \<Rightarrow> date \<Rightarrow> datetime \<Rightarrow> string \<Rightarrow>
     db \<times> (error + HealthSession)" where
  "create_session store session today utcnow uuid4 =
     (let session_obj =
            \<lparr>hs_id = uuid4, hs_user_id = default_user, hs_session_date = today,
             hs_sitting_duration = hsc_sitting_duration session,
             hs_activity_duration = hsc_activity_duration session,
             hs_completed = hsc_completed session,
             hs_timestamp = utcnow\<rparr>;
          session_data = session_data_of session_obj
      in if bson_int (sd_sitting_duration session_data) \<and>
            bson_int (sd_activity_duration session_data)
         then (store\<lparr>health_sessions := insert_one session_data (health_sessions store)\<rparr>,
               Inr session_obj)
         else (store, Inl OverflowError))"

definition get_today_sessions :: "db \<Rightarrow> date \<Rightarrow> HealthSession list" where
  "get_today_sessions store today =
     map HealthSession_of
       (to_list 100 (find_docs (\<lambda>s. sd_session_date s = today) (health_sessions store)))"

record DailyProgress =
  dp_date :: date
  dp_total_sessions :: int
  dp_completed_sessions :: int
  dp_total_sitting_time :: int
  dp_total_activity_time :: int
  dp_sessions :: "HealthSession list"

definition get_daily_progress :: "db \<Rightarrow> date \<Rightarrow> DailyProgress" where
  "get_daily_progress store today =
     (let sessions =
            to_list 100 (find_docs (\<lambda>s. sd_session_date s = today) (health_sessions store))
      in \<lparr>dp_date = today,
          dp_total_sessions = int (length sessions),
          dp_completed_sessions = int (length (filter sd_completed sessions)),
          dp_total_sitting_time = sum_list (map sd_sitting_duration sessions),
          dp_total_activity_time = sum_list (map sd_activity_duration sessions),
          dp_sessions = map HealthSession_of sessions\<rparr>)"

text \<open>
  The weekly grouping. \<^verbatim>\<open>daily_stats\<close> is a dictionary whose values are listed in
  insertion order, so it is an association list: \<open>AList.update\<close> replaces the value
  of a key where it stands and puts a new key last.
\<close>

record day_stats =
  ds_date :: iso_date
  ds_total_sessions :: int
  ds_completed_sessions :: int
  ds_total_sitting_time :: int
  ds_total_activity_time :: int

definition weekly_step ::
  "(iso_date \<times> day_stats) list \<Rightarrow> session_doc \<Rightarrow> (iso_date \<times> day_stats) list" where
  "weekly_step daily_stats session =
     (let session_date = sd_session_date session;
          bucket =
            (case map_of daily_stats session_date of
               None \<Rightarrow>
                 \<lparr>ds_date = session_date, ds_total_sessions = 0, ds_completed_sessions = 0,
                  ds_total_sitting_time = 0, ds_total_activity_time = 0\<rparr>
             | Some b \<Rightarrow> b)
      in AList.update session_date
           (bucket\<lparr>ds_total_sessions := ds_total_sessions bucket + 1,
                   ds_completed_sessions :=
                     (if sd_completed session then ds_completed_sessions bucket + 1
                      else ds_completed_sessions bucket),
                   ds_total_sitting_time :=
                     ds_total_sitting_time bucket + sd_sitting_duration session,
                   ds_total_activity_time :=
                     ds_total_activity_time bucket + sd_activity_duration session\<rparr>)
           daily_stats)"

record WeeklyProgress =
  wp_week_start :: date
  wp_week_end :: date
  wp_daily_progress :: "day_stats list"

definition get_weekly_progress :: "db \<Rightarrow> date \<Rightarrow> WeeklyProgress" where
  "get_weekly_progress store today =
     (let week_ago = today - 7;
          sessions =
            to_list 1000
              (find_docs (\<lambda>s. week_ago \<le> sd_session_date s \<and> sd_session_date s \<le> today)
                 (health_sessions store));
          daily_stats = foldl weekly_step [] sessions
      in \<lparr>wp_week_start = week_ago, wp_week_end = today,
          wp_daily_progress = map snd daily_stats\<rparr>)"

definition complete_session ::
  "db \<Rightarrow> string \<Rightarrow> datetime \<Rightarrow> db \<times> (error + HealthSession)" where
  "complete_session store session_id utcnow =
     (let (sessions, result) =
            update_one (\<lambda>s. sd_id s = session_id)
              (\<lambda>s. s\<lparr>sd_completed := True, sd_timestamp := IsoString utcnow\<rparr>)
              (health_sessions store);
          store' = store\<lparr>health_sessions := sessions\<rparr>
      in if modified_count result = 0
         then (store', Inl (HTTPException 404 ''Session not found''))
         else (case find_one (\<lambda>s. sd_id s = session_id) sessions of
                 None \<Rightarrow> (store', Inl TypeError)
               | Some session \<Rightarrow> (store', Inr (HealthSession_of session))))"

section \<open>Settings endpoints\<close>

text \<open>\<^verbatim>\<open>UserSettings(**settings)\<close> on a stored document.\<close>

definition UserSettings_of :: "settings_doc \<Rightarrow> UserSettings" where
  "UserSettings_of settings =
     \<lparr>us_id = st_id settings, us_user_id = st_user_id settings,
      us_sitting_reminder_minutes = st_sitting_reminder_minutes settings,
      us_activity_break_minutes = st_activity_break_minutes settings,
      us_notifications_enabled = st_notifications_enabled settings,
      us_sound_alerts_enabled = st_sound_alerts_enabled settings,
      us_daily_goal_sessions = st_daily_goal_sessions settings,
      us_timestamp = parse_datetime (st_timestamp settings)\<rparr>"

text \<open>\<^verbatim>\<open>settings.dict()\<close> with \<^verbatim>\<open>timestamp\<close> replaced by its ISO string.\<close>

definition settings_data_of :: "UserSettings \<Rightarrow> settings_doc" where
  "settings_data_of settings =
     \<lparr>st_id = us_id settings, st_user_id = us_user_id settings,
      st_sitting_reminder_minutes = us_sitting_reminder_minutes settings,
      st_activity_break_minutes = us_activity_break_minutes settings,
      st_notifications_enabled = us_notifications_enabled settings,
      st_sound_alerts_enabled = us_sound_alerts_enabled settings,
      st_daily_goal_sessions = us_daily_goal_sessions settings,
      st_timestamp = IsoString (us_timestamp settings)\<rparr>"

definition get_user_settings :: "db \<Rightarrow> datetime \<Rightarrow> string \<Rightarrow> db \<times> UserSettings" where
  "get_user_settings store utcnow uuid4 =
     (case find_one (\<lambda>s. st_user_id s = default_user) (user_settings store) of
        None \<Rightarrow>
          (let default_settings =
                 \<lparr>us_id = uuid4, us_user_id = default_user,
                  us_sitting_reminder_minutes = 50, us_activity_break_minutes = 10,
                  us_notifications_enabled = True, us_sound_alerts_enabled = True,
                  us_daily_goal_sessions = 8, us_timestamp = utcnow\<rparr>;
               settings_data = settings_data_of default_settings
           in (store\<lparr>user_settings := insert_one settings_data (user_settings store)\<rparr>,
               default_settings))
      | Some settings \<Rightarrow> (store, UserSettings_of settings))"

text \<open>
  \<^verbatim>\<open>{"$set": update_data}\<close>: the fields of the request that are not \<^verbatim>\<open>None\<close>, and the
  timestamp.
\<close>

definition set_update_data :: "UserSettingsUpdate \<Rightarrow> datetime \<Rightarrow> settings_doc \<Rightarrow> settings_doc" where
  "set_update_data settings_update utcnow s =
     s\<lparr>st_sitting_reminder_minutes :=
         (case usu_sitting_reminder_minutes settings_update of
            None \<Rightarrow> st_sitting_reminder_minutes s | Some v \<Rightarrow> v),
       st_activity_break_minutes :=
         (case usu_activity_break_minutes settings_update of
            None \<Rightarrow> st_activity_break_minutes s | Some v \<Rightarrow> v),
       st_notifications_enabled :=
         (case usu_notifications_enabled settings_update of
            None \<Rightarrow> st_notifications_enabled s | Some v \<Rightarrow> v),
       st_sound_alerts_enabled :=
         (case usu_sound_alerts_enabled settings_update of
            None \<Rightarrow> st_sound_alerts_enabled s | Some v \<Rightarrow> v),
       st_daily_goal_sessions :=
         (case usu_daily_goal_sessions settings_update of
            None \<Rightarrow> st_daily_goal_sessions s | Some v \<Rightarrow> v),
       st_timestamp := IsoString utcnow\<rparr>"

text \<open>
  \<^verbatim>\<open>update_one\<close> raises when an integer of \<^verbatim>\<open>update_data\<close> does not fit 8 bytes; nothing is
  written then.
\<close>

definition bson_update :: "UserSettingsUpdate \<Rightarrow> bool" where
  "bson_update settings_update \<longleftrightarrow>
     bson_int_opt (usu_sitting_reminder_minutes settings_update) \<and>
     bson_int_opt (usu_activity_break_minutes settings_update) \<and>
     bson_int_opt (usu_daily_goal_sessions settings_update)"

definition update_user_settings ::
  "db \<Rightarrow> UserSettingsUpdate \<Rightarrow> datetime \<Rightarrow> string \<Rightarrow> db \<times> (error + UserSettings)" where
  "update_user_settings store settings_update utcnow uuid4 =
     (if \<not> bson_update settings_update then (store, Inl OverflowError)
      else let (settings_coll, result) =
            update_one (\<lambda>s. st_user_id s = default_user)
              (set_update_data settings_update utcnow) (user_settings store);
          store' = store\<lparr>user_settings := settings_coll\<rparr>
      in if matched_count result = 0
         then (let new_settings =
                     \<lparr>us_id = uuid4, us_user_id = default_user,
                      us_sitting_reminder_minutes =
                        (case usu_sitting_reminder_minutes settings_update of
                           None \<Rightarrow> 50 | Some v \<Rightarrow> v),
                      us_activity_break_minutes =
                        (case usu_activity_break_minutes settings_update of
                           None \<Rightarrow> 10 | Some v \<Rightarrow> v),
                      us_notifications_enabled =
                        (case usu_notifications_enabled settings_update of
                           None \<Rightarrow> True | Some v \<Rightarrow> v),
                      us_sound_alerts_enabled =
                        (case usu_sound_alerts_enabled settings_update of
                           None \<Rightarrow> True | Some v \<Rightarrow> v),
                      us_daily_goal_sessions =
                        (case usu_daily_goal_sessions settings_update of
                           None \<Rightarrow> 8 | Some v \<Rightarrow> v),
                      us_timestamp = utcnow\<rparr>;
                   settings_data = settings_data_of new_settings
               in (store'\<lparr>user_settings := insert_one settings_data settings_coll\<rparr>,
                   Inr new_settings))
         else (case find_one (\<lambda>s. st_user_id s = default_user) settings_coll of
                 None \<Rightarrow> (store', Inl TypeError)
               | Some settings \<Rightarrow> (store', Inr (UserSettings_of settings))))"

section \<open>Sequences of operations\<close>

text \<open>
  One request to the core with the clock readings and the identifier it draws, and the
  store after it. The three read-only endpoints only call \<^verbatim>\<open>find\<close>.
\<close>

datatype core_op =
    Create HealthSessionCreate date datetime string
  | ListToday date
  | Daily date
  | Weekly date
  | Complete string datetime
  | SettingsGet datetime string
  | SettingsUpdate UserSettingsUpdate datetime string

fun step :: "db \<Rightarrow> core_op \<Rightarrow> db" where
  "step store (Create session today utcnow uuid4) =
     fst (create_session store session today utcnow uuid4)"
| "step store (ListToday today) = store"
| "step store (Daily today) = store"
| "step store (Weekly today) = store"
| "step store (Complete session_id utcnow) = fst (complete_session store session_id utcnow)"
| "step store (SettingsGet utcnow uuid4) = fst (get_user_settings store utcnow uuid4)"
| "step store (SettingsUpdate settings_update utcnow uuid4) =
     fst (update_user_settings store settings_update utcnow uuid4)"

definition run :: "db \<Rightarrow> core_op list \<Rightarrow> db" where
  "run store ops = foldl step store ops"

section \<open>Vocabulary of the properties\<close>

text \<open>
  The sessions of one date, the sessions of the window \<open>[today - 7, today]\<close>, and the
  bucket a date should get from a list of sessions: their number, the number of the
  completed ones and the two sums of minutes.
\<close>

definition sessions_on :: "date \<Rightarrow> db \<Rightarrow> session_doc list" where
  "sessions_on d store = filter (\<lambda>s. sd_session_date s = d) (health_sessions store)"

definition in_week :: "date \<Rightarrow> session_doc \<Rightarrow> bool" where
  "in_week today s \<longleftrightarrow> today - 7 \<le> sd_session_date s \<and> sd_session_date s \<le> today"

definition stats_for :: "iso_date \<Rightarrow> session_doc list \<Rightarrow> day_stats" where
  "stats_for d ss =
     (let on_d = filter (\<lambda>s. sd_session_date s = d) ss
      in \<lparr>ds_date = d,
          ds_total_sessions = int (length on_d),
          ds_completed_sessions = int (length (filter sd_completed on_d)),
          ds_total_sitting_time = sum_list (map sd_sitting_duration on_d),
          ds_total_activity_time = sum_list (map sd_activity_duration on_d)\<rparr>)"

definition week_sessions :: "date \<Rightarrow> db \<Rightarrow> session_doc list" where
  "week_sessions today store = filter (in_week today) (health_sessions store)"

text \<open>
  Stores reached from the empty one: \<open>n\<close> sessions created in a row, and the scenario of
  four sessions of which the first two are completed.
\<close>

definition empty_db :: db where
  "empty_db = \<lparr>health_sessions = [], user_settings = []\<rparr>"

definition sample_uuid :: "nat \<Rightarrow> string" where
  "sample_uuid n = replicate (Suc n) CHR ''u''"

fun create_many :: "nat \<Rightarrow> HealthSessionCreate \<Rightarrow> date \<Rightarrow> db \<Rightarrow> db" where
  "create_many 0 session today store = store"
| "create_many (Suc n) session today store =
     step (create_many n session today store) (Create session today (int n) (sample_uuid n))"


text \<open>
  The number of settings records of a user. What may change about a stored session:
  nothing but its timestamp, and \<^verbatim>\<open>completed\<close> from false to true.
\<close>

definition settings_count :: "string \<Rightarrow> db \<Rightarrow> nat" where
  "settings_count u store = length (filter (\<lambda>s. st_user_id s = u) (user_settings store))"

definition session_evolves :: "session_doc \<Rightarrow> session_doc \<Rightarrow> bool" where
  "session_evolves d d' \<longleftrightarrow>
     sd_id d' = sd_id d \<and> sd_user_id d' = sd_user_id d \<and>
     sd_session_date d' = sd_session_date d \<and>
     sd_sitting_duration d' = sd_sitting_duration d \<and>
     sd_activity_duration d' = sd_activity_duration d \<and>
     (sd_completed d \<longrightarrow> sd_completed d')"

text \<open>
  Further stores and sequences of requests used as examples: a week with sessions on
  three days, one of them before the window; a day with 1000 sessions followed by one
  session the next day; a session completed once; settings read and then updated; a mixed
  sequence of requests.
\<close>

definition week_scenario :: "core_op list" where
  "week_scenario =
     [Create \<lparr>hsc_sitting_duration = 30, hsc_activity_duration = 5, hsc_completed = False\<rparr>
        738878 1000 ''a'',
      Create \<lparr>hsc_sitting_duration = 50, hsc_activity_duration = 10, hsc_completed = False\<rparr>
        738883 2000 ''b'',
      Create \<lparr>hsc_sitting_duration = 45, hsc_activity_duration = 15, hsc_completed = True\<rparr>
        738886 3000 ''c'',
      Complete ''b'' 4000,
      Create \<lparr>hsc_sitting_duration = 60, hsc_activity_duration = 10, hsc_completed = False\<rparr>
        738886 5000 ''d'']"

definition overfull_week :: db where
  "overfull_week =
     step (create_many 1000
             \<lparr>hsc_sitting_duration = 50, hsc_activity_duration = 10, hsc_completed = False\<rparr>
             738885 empty_db)
       (Create \<lparr>hsc_sitting_duration = 50, hsc_activity_duration = 10, hsc_completed = False\<rparr>
          738886 2000 (sample_uuid 1000))"

definition completed_once :: "core_op list" where
  "completed_once =
     [Create \<lparr>hsc_sitting_duration = 50, hsc_activity_duration = 10, hsc_completed = False\<rparr>
        738886 1000 ''a'',
      Complete ''a'' 5000]"

definition settings_scenario :: "core_op list" where
  "settings_scenario =
     [SettingsGet 1000 ''s'',
      SettingsUpdate \<lparr>usu_sitting_reminder_minutes = None, usu_activity_break_minutes = Some 15,
                      usu_notifications_enabled = Some False, usu_sound_alerts_enabled = None,
                      usu_daily_goal_sessions = Some 6\<rparr> 2000 ''t'']"

definition later_ops :: "core_op list" where
  "later_ops =
     [Complete ''a'' 5000,
      Create \<lparr>hsc_sitting_duration = 45, hsc_activity_duration = 15, hsc_completed = False\<rparr>
        738887 7000 ''b'',
      Daily 738887, Weekly 738887, ListToday 738887,
      SettingsGet 8000 ''s'',
      SettingsUpdate \<lparr>usu_sitting_reminder_minutes = Some 60, usu_activity_break_minutes = None,
                      usu_notifications_enabled = None, usu_sound_alerts_enabled = None,
                      usu_daily_goal_sessions = None\<rparr> 9000 ''t'',
      Complete ''b'' 9500, Complete ''a'' 9900]"

section \<open>The document store: basic facts\<close>

lemma find_one_None_iff: "find_one flt coll = None \<longleftrightarrow> filter flt coll = []"
  by (induction coll) auto

lemma find_one_Some_iff:
  "find_one flt coll = Some d \<longleftrightarrow> (\<exists>ds. filter flt coll = d # ds)"
  by (induction coll) auto

lemma update_one_length: "length (fst (update_one flt upd coll)) = length coll"
  by (induction coll) auto

lemma update_one_matched:
  "matched_count (snd (update_one flt upd coll)) = 0 \<longleftrightarrow> find_one flt coll = None"
  by (induction coll) auto

lemma update_one_modified:
  "modified_count (snd (update_one flt upd coll)) = 0 \<longleftrightarrow>
     (case find_one flt coll of None \<Rightarrow> True | Some d \<Rightarrow> upd d = d)"
  by (induction coll) auto

lemma update_one_unmodified:
  "modified_count (snd (update_one flt upd coll)) = 0 \<Longrightarrow> fst (update_one flt upd coll) = coll"
  by (induction coll) (auto split: if_splits)

lemma update_one_nth:
  "i < length coll \<Longrightarrow>
   fst (update_one flt upd coll) ! i = coll ! i \<or>
   (flt (coll ! i) \<and> fst (update_one flt upd coll) ! i = upd (coll ! i))"
proof (induction coll arbitrary: i)
  case Nil
  then show ?case by simp
next
  case (Cons d ds)
  show ?case
  proof (cases i)
    case 0
    then show ?thesis by simp
  next
    case (Suc j)
    with Cons show ?thesis by auto
  qed
qed

lemma find_one_update_one:
  assumes "\<And>d. flt (upd d) = flt d"
  shows "find_one flt (fst (update_one flt upd coll)) = map_option upd (find_one flt coll)"
  using assms by (induction coll) auto

lemma filter_update_one:
  assumes "\<And>d. P (upd d) = P d"
  shows "length (filter P (fst (update_one flt upd coll))) = length (filter P coll)"
  using assms by (induction coll) auto

lemma update_one_unmatched:
  "matched_count (snd (update_one flt upd coll)) = 0 \<Longrightarrow> fst (update_one flt upd coll) = coll"
  by (induction coll) (auto split: if_splits)

section \<open>Running sequences\<close>

lemma run_Nil: "run store [] = store"
  by (simp add: run_def)

lemma run_Cons: "run store (op # ops) = run (step store op) ops"
  by (simp add: run_def)

section \<open>Creating sessions: the two outcomes\<close>

lemma create_session_stored:
  assumes "bson_int (hsc_sitting_duration session)"
    and "bson_int (hsc_activity_duration session)"
  shows "create_session store session today utcnow uuid4 =
     (store\<lparr>health_sessions := health_sessions store @
         [\<lparr>sd_id = uuid4, sd_user_id = default_user, sd_session_date = today,
           sd_sitting_duration = hsc_sitting_duration session,
           sd_activity_duration = hsc_activity_duration session,
           sd_completed = hsc_completed session,
           sd_timestamp = BsonDate (utcnow div 1000)\<rparr>]\<rparr>,
      Inr \<lparr>hs_id = uuid4, hs_user_id = default_user, hs_session_date = today,
           hs_sitting_duration = hsc_sitting_duration session,
           hs_activity_duration = hsc_activity_duration session,
           hs_completed = hsc_completed session,
           hs_timestamp = utcnow\<rparr>)"
  using assms
  by (simp add: create_session_def Let_def insert_one_def session_data_of_def)

lemma create_session_overflow:
  assumes "\<not> (bson_int (hsc_sitting_duration session) \<and>
              bson_int (hsc_activity_duration session))"
  shows "create_session store session today utcnow uuid4 = (store, Inl OverflowError)"
  using assms
  by (simp add: create_session_def Let_def session_data_of_def)

lemma create_session_settings:
  "user_settings (fst (create_session store session today utcnow uuid4)) = user_settings store"
  by (simp add: create_session_def Let_def)

section \<open>Sample stores\<close>

lemma create_many_dates:
  assumes "bson_int (hsc_sitting_duration session)"
    and "bson_int (hsc_activity_duration session)"
  shows "map sd_session_date (health_sessions (create_many n session today store)) =
     map sd_session_date (health_sessions store) @ replicate n today"
  by (induction n)
     (simp_all add: create_session_stored [OF assms] replicate_append_same)



lemma run_week_scenario:
  "run empty_db week_scenario =
     \<lparr>health_sessions =
        [\<lparr>sd_id = ''a'', sd_user_id = default_user, sd_session_date = 738878,
          sd_sitting_duration = 30, sd_activity_duration = 5, sd_completed = False,
          sd_timestamp = BsonDate 1\<rparr>,
         \<lparr>sd_id = ''b'', sd_user_id = default_user, sd_session_date = 738883,
          sd_sitting_duration = 50, sd_activity_duration = 10, sd_completed = True,
          sd_timestamp = IsoString 4000\<rparr>,
         \<lparr>sd_id = ''c'', sd_user_id = default_user, sd_session_date = 738886,
          sd_sitting_duration = 45, sd_activity_duration = 15, sd_completed = True,
          sd_timestamp = BsonDate 3\<rparr>,
         \<lparr>sd_id = ''d'', sd_user_id = default_user, sd_session_date = 738886,
          sd_sitting_duration = 60, sd_activity_duration = 10, sd_completed = False,
          sd_timestamp = BsonDate 5\<rparr>],
      user_settings = []\<rparr>"
  by (simp add: run_def week_scenario_def empty_db_def create_session_def complete_session_def
        insert_one_def session_data_of_def Let_def bson_int_def)

lemma overfull_week_dates:
  "map sd_session_date (health_sessions overfull_week) = replicate 1000 738885 @ [738886]"
  by (simp add: overfull_week_def create_many_dates empty_db_def create_session_def
        insert_one_def session_data_of_def Let_def bson_int_def)

lemma run_completed_once:
  "run empty_db completed_once =
     \<lparr>health_sessions =
        [\<lparr>sd_id = ''a'', sd_user_id = default_user, sd_session_date = 738886,
          sd_sitting_duration = 50, sd_activity_duration = 10, sd_completed = True,
          sd_timestamp = IsoString 5000\<rparr>],
      user_settings = []\<rparr>"
  by (simp add: run_def completed_once_def empty_db_def create_session_def
        complete_session_def insert_one_def session_data_of_def Let_def bson_int_def)

lemma run_settings_get:
  "run empty_db [SettingsGet 1000 ''s''] =
     \<lparr>health_sessions = [],
      user_settings =
        [\<lparr>st_id = ''s'', st_user_id = default_user,
          st_sitting_reminder_minutes = 50, st_activity_break_minutes = 10,
          st_notifications_enabled = True, st_sound_alerts_enabled = True,
          st_daily_goal_sessions = 8, st_timestamp = IsoString 1000\<rparr>]\<rparr>"
  by (simp add: run_def empty_db_def get_user_settings_def Let_def insert_one_def
        settings_data_of_def)

section \<open>Daily progress\<close>





section \<open>Weekly progress\<close>

text \<open>
  The grouping loop, by induction on the sessions read so far: after the loop the
  dictionary maps exactly the dates seen to the bucket of that date, each key once.
\<close>

lemma stats_for_no_session:
  "d \<notin> sd_session_date ` set ss \<Longrightarrow>
   stats_for d ss =
     \<lparr>ds_date = d, ds_total_sessions = 0, ds_completed_sessions = 0,
      ds_total_sitting_time = 0, ds_total_activity_time = 0\<rparr>"
proof -
  assume "d \<notin> sd_session_date ` set ss"
  then have "filter (\<lambda>s. sd_session_date s = d) ss = []"
    by (auto simp: filter_empty_conv)
  then show ?thesis by (simp add: stats_for_def)
qed

lemma stats_for_snoc_other:
  "sd_session_date s \<noteq> d \<Longrightarrow> stats_for d (ss @ [s]) = stats_for d ss"
  by (simp add: stats_for_def Let_def)

lemma stats_for_snoc_same:
  "stats_for (sd_session_date s) (ss @ [s]) =
     (stats_for (sd_session_date s) ss)
       \<lparr>ds_total_sessions := ds_total_sessions (stats_for (sd_session_date s) ss) + 1,
        ds_completed_sessions :=
          (if sd_completed s then ds_completed_sessions (stats_for (sd_session_date s) ss) + 1
           else ds_completed_sessions (stats_for (sd_session_date s) ss)),
        ds_total_sitting_time :=
          ds_total_sitting_time (stats_for (sd_session_date s) ss) + sd_sitting_duration s,
        ds_total_activity_time :=
          ds_total_activity_time (stats_for (sd_session_date s) ss) + sd_activity_duration s\<rparr>"
  by (simp add: stats_for_def Let_def)

lemma ds_date_stats_for: "ds_date (stats_for d ss) = d"
  by (simp add: stats_for_def Let_def)

lemma map_of_weekly_loop:
  "map_of (foldl weekly_step [] ss) d =
     (if d \<in> sd_session_date ` set ss then Some (stats_for d ss) else None)"
proof (induction ss arbitrary: d rule: rev_induct)
  case Nil
  show ?case by simp
next
  case (snoc s ss)
  let ?al = "foldl weekly_step [] ss"
  let ?k = "sd_session_date s"
  have bucket: "(case map_of ?al ?k of
                   None \<Rightarrow> \<lparr>ds_date = ?k, ds_total_sessions = 0, ds_completed_sessions = 0,
                             ds_total_sitting_time = 0, ds_total_activity_time = 0\<rparr>
                 | Some b \<Rightarrow> b) = stats_for ?k ss"
    using snoc.IH [of ?k] by (simp add: stats_for_no_session)
  show ?case
  proof (cases "d = ?k")
    case True
    have "map_of (foldl weekly_step [] (ss @ [s])) ?k = Some (stats_for ?k (ss @ [s]))"
      unfolding foldl_append foldl_Cons foldl_Nil weekly_step_def Let_def bucket
      by (simp add: update_conv' stats_for_snoc_same)
    with True show ?thesis by simp
  next
    case False
    then have "map_of (foldl weekly_step [] (ss @ [s])) d = map_of ?al d"
      unfolding foldl_append foldl_Cons foldl_Nil weekly_step_def Let_def
      by (simp add: update_conv')
    with False snoc.IH [of d] show ?thesis
      by (auto simp: stats_for_snoc_other)
  qed
qed

lemma distinct_weekly_loop: "distinct (map fst (foldl weekly_step [] ss))"
proof (induction ss rule: rev_induct)
  case Nil
  show ?case by simp
next
  case (snoc s ss)
  then show ?case
    by (simp add: weekly_step_def Let_def distinct_update)
qed

lemma keys_weekly_loop: "fst ` set (foldl weekly_step [] ss) = sd_session_date ` set ss"
proof -
  have "fst ` set (foldl weekly_step [] ss) = dom (map_of (foldl weekly_step [] ss))"
    by (simp add: dom_map_of_conv_image_fst)
  also have "\<dots> = sd_session_date ` set ss"
    by (auto simp: map_of_weekly_loop dom_def)
  finally show ?thesis .
qed

lemma entry_weekly_loop:
  "(k, b) \<in> set (foldl weekly_step [] ss) \<Longrightarrow> b = stats_for k ss"
proof -
  assume "(k, b) \<in> set (foldl weekly_step [] ss)"
  then have "map_of (foldl weekly_step [] ss) k = Some b"
    using distinct_weekly_loop [of ss] by simp
  then show ?thesis
    by (simp add: map_of_weekly_loop split: if_splits)
qed

lemma dates_weekly_loop:
  "map ds_date (map snd (foldl weekly_step [] ss)) = map fst (foldl weekly_step [] ss)"
proof -
  have "\<forall>p \<in> set (foldl weekly_step [] ss). ds_date (snd p) = fst p"
  proof
    fix p
    assume "p \<in> set (foldl weekly_step [] ss)"
    then have "(fst p, snd p) \<in> set (foldl weekly_step [] ss)" by simp
    then have "snd p = stats_for (fst p) ss" by (rule entry_weekly_loop)
    then show "ds_date (snd p) = fst p" by (simp add: ds_date_stats_for)
  qed
  then show ?thesis by simp
qed

text \<open>
  The buckets come in the order in which their dates are first seen, which need not be
  chronological.
\<close>

lemma order_weekly_loop:
  "map fst (foldl weekly_step [] ss) = rev (remdups (rev (map sd_session_date ss)))"
proof (induction ss rule: rev_induct)
  case Nil
  show ?case by simp
next
  case (snoc s ss)
  then show ?case
    by (auto simp: weekly_step_def Let_def update_keys)
qed

lemma stats_for_week:
  "today - 7 \<le> d \<Longrightarrow> d \<le> today \<Longrightarrow>
   stats_for d (filter (in_week today) ss) = stats_for d ss"
proof -
  assume "today - 7 \<le> d" "d \<le> today"
  then have "filter (\<lambda>s. sd_session_date s = d) (filter (in_week today) ss) =
             filter (\<lambda>s. sd_session_date s = d) ss"
    by (auto simp: in_week_def intro: filter_cong)
  then show ?thesis by (simp add: stats_for_def)
qed

lemma in_week_eq:
  "in_week today = (\<lambda>s. today - 7 \<le> sd_session_date s \<and> sd_session_date s \<le> today)"
  by (simp add: fun_eq_iff in_week_def)

lemma weekly_result:
  "wp_daily_progress (get_weekly_progress store today) =
     map snd (foldl weekly_step [] (take 1000 (week_sessions today store)))"
  by (simp add: get_weekly_progress_def Let_def to_list_def find_docs_def week_sessions_def
        in_week_eq)

lemma weekly_bucket_dates:
  "map ds_date (wp_daily_progress (get_weekly_progress store today)) =
     map fst (foldl weekly_step [] (take 1000 (week_sessions today store)))"
  by (simp only: weekly_result dates_weekly_loop)

lemma weekly_dates:
  "ds_date ` set (wp_daily_progress (get_weekly_progress store today)) =
     sd_session_date ` set (take 1000 (week_sessions today store))"
proof -
  have "ds_date ` set (wp_daily_progress (get_weekly_progress store today)) =
        set (map ds_date (wp_daily_progress (get_weekly_progress store today)))"
    by simp
  also have "\<dots> = fst ` set (foldl weekly_step [] (take 1000 (week_sessions today store)))"
    by (simp only: weekly_bucket_dates set_map)
  finally show ?thesis by (simp only: keys_weekly_loop)
qed

lemma weekly_distinct:
  "distinct (map ds_date (wp_daily_progress (get_weekly_progress store today)))"
  by (simp only: weekly_bucket_dates distinct_weekly_loop)

lemma weekly_bucket:
  assumes "b \<in> set (wp_daily_progress (get_weekly_progress store today))"
  shows "b = stats_for (ds_date b) (take 1000 (week_sessions today store))"
proof -
  from assms obtain k where
    kb: "(k, b) \<in> set (foldl weekly_step [] (take 1000 (week_sessions today store)))"
    by (auto simp: weekly_result)
  then have b: "b = stats_for k (take 1000 (week_sessions today store))"
    by (rule entry_weekly_loop)
  then have "ds_date b = k" by (simp add: ds_date_stats_for)
  with b show ?thesis by simp
qed

lemma weekly_bucket_in_window:
  assumes "b \<in> set (wp_daily_progress (get_weekly_progress store today))"
  shows "today - 7 \<le> ds_date b \<and> ds_date b \<le> today"
proof -
  from assms have "ds_date b \<in> sd_session_date ` set (take 1000 (week_sessions today store))"
    using weekly_dates [of store today] by blast
  then obtain s where "s \<in> set (take 1000 (week_sessions today store))" "ds_date b = sd_session_date s"
    by auto
  then have "s \<in> set (week_sessions today store)" "ds_date b = sd_session_date s"
    by (auto dest: in_set_takeD)
  then show ?thesis by (simp add: week_sessions_def in_week_def)
qed

lemma week_sessions_dates:
  "map sd_session_date (week_sessions today store) =
     filter (\<lambda>d. today - 7 \<le> d \<and> d \<le> today) (map sd_session_date (health_sessions store))"
  by (simp add: week_sessions_def in_week_eq filter_map comp_def)

lemma sessions_on_dates:
  "length (sessions_on d store) =
     length (filter (\<lambda>x. x = d) (map sd_session_date (health_sessions store)))"
  by (simp add: sessions_on_def filter_map comp_def)

lemma weekly_week_scenario:
  "wp_daily_progress (get_weekly_progress (run empty_db week_scenario) 738886) =
     [\<lparr>ds_date = 738883, ds_total_sessions = 1, ds_completed_sessions = 1,
       ds_total_sitting_time = 50, ds_total_activity_time = 10\<rparr>,
      \<lparr>ds_date = 738886, ds_total_sessions = 2, ds_completed_sessions = 1,
       ds_total_sitting_time = 105, ds_total_activity_time = 25\<rparr>]"
  by (simp add: run_week_scenario get_weekly_progress_def to_list_def find_docs_def
        weekly_step_def Let_def)

text \<open>
  Claim C1, as the code has it. \<^verbatim>\<open>get_weekly_progress\<close> reads at most 1000 of the sessions
  whose \<^verbatim>\<open>session_date\<close> lies in the inclusive window \<open>[today - 7, today]\<close> of 8 calendar
  days (\<^verbatim>\<open>to_list(1000)\<close>). When the window holds at most 1000 sessions, the sessions
  considered are exactly those of the window, \<^verbatim>\<open>daily_progress\<close> has no bucket for a date
  without a session in the window, and every date with a session in the window has exactly
  one bucket, whose four numbers are the count, the completed count and the two duration
  sums over that date's sessions. In general the same holds of the first 1000 sessions of
  the window in store order.
\<close>

theorem get_weekly_progress_buckets:
  "wp_week_start (get_weekly_progress store today) = today - 7 \<and>
   wp_week_end (get_weekly_progress store today) = today \<and>
   card {today - 7 .. today} = 8 \<and>
   set (week_sessions today store) =
     {s \<in> set (health_sessions store). sd_session_date s \<in> {today - 7 .. today}} \<and>
   distinct (map ds_date (wp_daily_progress (get_weekly_progress store today))) \<and>
   ds_date ` set (wp_daily_progress (get_weekly_progress store today)) =
     sd_session_date ` set (take 1000 (week_sessions today store)) \<and>
   (\<forall>b \<in> set (wp_daily_progress (get_weekly_progress store today)).
      b = stats_for (ds_date b) (take 1000 (week_sessions today store))) \<and>
   (length (week_sessions today store) \<le> 1000 \<longrightarrow>
      ds_date ` set (wp_daily_progress (get_weekly_progress store today)) =
        sd_session_date ` set (week_sessions today store) \<and>
      (\<forall>b \<in> set (wp_daily_progress (get_weekly_progress store today)).
         b = stats_for (ds_date b) (health_sessions store)))"
proof -
  have start: "wp_week_start (get_weekly_progress store today) = today - 7"
    and stop: "wp_week_end (get_weekly_progress store today) = today"
    by (simp_all add: get_weekly_progress_def Let_def)
  have days: "card {today - 7 .. today} = 8" by simp
  have window: "set (week_sessions today store) =
     {s \<in> set (health_sessions store). sd_session_date s \<in> {today - 7 .. today}}"
    by (auto simp: week_sessions_def in_week_def)
  have capped: "\<forall>b \<in> set (wp_daily_progress (get_weekly_progress store today)).
      b = stats_for (ds_date b) (take 1000 (week_sessions today store))"
    using weekly_bucket by blast
  have full: "length (week_sessions today store) \<le> 1000 \<longrightarrow>
      ds_date ` set (wp_daily_progress (get_weekly_progress store today)) =
        sd_session_date ` set (week_sessions today store) \<and>
      (\<forall>b \<in> set (wp_daily_progress (get_weekly_progress store today)).
         b = stats_for (ds_date b) (health_sessions store))"
  proof
    assume "length (week_sessions today store) \<le> 1000"
    then have all: "take 1000 (week_sessions today store) = week_sessions today store"
      by simp
    have "\<forall>b \<in> set (wp_daily_progress (get_weekly_progress store today)).
         b = stats_for (ds_date b) (health_sessions store)"
    proof
      fix b
      assume b: "b \<in> set (wp_daily_progress (get_weekly_progress store today))"
      then have "b = stats_for (ds_date b) (week_sessions today store)"
        using weekly_bucket [of b store today] all by simp
      moreover have "stats_for (ds_date b) (week_sessions today store) =
                     stats_for (ds_date b) (health_sessions store)"
        using weekly_bucket_in_window [OF b] by (simp add: week_sessions_def stats_for_week)
      ultimately show "b = stats_for (ds_date b) (health_sessions store)" by simp
    qed
    then show "ds_date ` set (wp_daily_progress (get_weekly_progress store today)) =
        sd_session_date ` set (week_sessions today store) \<and>
      (\<forall>b \<in> set (wp_daily_progress (get_weekly_progress store today)).
         b = stats_for (ds_date b) (health_sessions store))"
      using weekly_dates [of store today] all by simp
  qed
  from start stop days window weekly_distinct [of store today] weekly_dates [of store today]
    capped full
  show ?thesis by blast
qed

text \<open>
  A week with a session eight days ago (outside the window), one three days ago and two
  today: two buckets, each with the numbers of its date.
\<close>

theorem get_weekly_progress_buckets_witness:
  "length (week_sessions 738886 (run empty_db week_scenario)) \<le> 1000 \<and>
   map ds_date (wp_daily_progress (get_weekly_progress (run empty_db week_scenario) 738886)) =
     [738883, 738886] \<and>
   wp_daily_progress (get_weekly_progress (run empty_db week_scenario) 738886) ! 0 =
     stats_for 738883 (health_sessions (run empty_db week_scenario)) \<and>
   wp_daily_progress (get_weekly_progress (run empty_db week_scenario) 738886) ! 1 =
     stats_for 738886 (health_sessions (run empty_db week_scenario)) \<and>
   ds_total_sessions
     (wp_daily_progress (get_weekly_progress (run empty_db week_scenario) 738886) ! 1) = 2"
proof -
  let ?buckets = "wp_daily_progress (get_weekly_progress (run empty_db week_scenario) 738886)"
  have small: "length (week_sessions 738886 (run empty_db week_scenario)) \<le> 1000"
    by (simp add: run_week_scenario week_sessions_def in_week_def)
  have dates: "map ds_date ?buckets = [738883, 738886]"
    and first: "ds_date (?buckets ! 0) = 738883"
    and second: "ds_date (?buckets ! 1) = 738886"
    and two: "ds_total_sessions (?buckets ! 1) = 2"
    and mem: "?buckets ! 0 \<in> set ?buckets" "?buckets ! 1 \<in> set ?buckets"
    by (simp_all add: weekly_week_scenario)
  from small get_weekly_progress_buckets [of "run empty_db week_scenario" 738886]
  have all: "\<forall>b \<in> set ?buckets.
      b = stats_for (ds_date b) (health_sessions (run empty_db week_scenario))"
    by blast
  from all mem(1) first
  have b0: "?buckets ! 0 = stats_for 738883 (health_sessions (run empty_db week_scenario))"
    by fastforce
  from all mem(2) second
  have b1: "?buckets ! 1 = stats_for 738886 (health_sessions (run empty_db week_scenario))"
    by fastforce
  from small dates b0 b1 two show ?thesis by blast
qed

text \<open>
  Claim C1 as stated fails: after 1000 sessions yesterday and one today, today has a
  session inside the window and no bucket.
\<close>

theorem get_weekly_progress_cap_counterexample:
  "length (sessions_on 738886 overfull_week) = 1 \<and>
   738886 \<in> {738886 - 7 .. 738886 :: int} \<and>
   738886 \<notin> ds_date ` set (wp_daily_progress (get_weekly_progress overfull_week 738886))"
proof -
  have one: "length (sessions_on 738886 overfull_week) = 1"
    by (simp add: sessions_on_dates overfull_week_dates)
  have "sd_session_date ` set (take 1000 (week_sessions 738886 overfull_week)) =
        set (take 1000 (map sd_session_date (week_sessions 738886 overfull_week)))"
    by (simp only: take_map set_map)
  also have "\<dots> = {738885}"
    by (simp add: week_sessions_dates overfull_week_dates)
  finally have "738886 \<notin> sd_session_date ` set (take 1000 (week_sessions 738886 overfull_week))"
    by simp
  with one show ?thesis by (simp add: weekly_dates)
qed

section \<open>Creating sessions\<close>




text \<open>
  Claim C10, as the code has it. \<^verbatim>\<open>create_session\<close> checks nothing itself: whatever integers
  the store can encode (the signed 64-bit ones, negative ones included) and whatever flag
  the request carries are returned and stored as they are. Created on an empty store, such
  a session alone makes up the daily and weekly sums, which are therefore negative for
  negative durations, and it counts as completed when it was created with
  \<^verbatim>\<open>completed = true\<close>, with no call of \<^verbatim>\<open>complete_session\<close>. Read back, its timestamp is
  the instant of creation cut to the millisecond.
\<close>

theorem create_session_unvalidated:
  assumes "- (2 ^ 63) \<le> a" and "a \<le> 2 ^ 63 - 1"
    and "- (2 ^ 63) \<le> b" and "b \<le> 2 ^ 63 - 1"
  shows "snd (create_session store
          \<lparr>hsc_sitting_duration = a, hsc_activity_duration = b, hsc_completed = c\<rparr>
          today utcnow uuid) =
     Inr \<lparr>hs_id = uuid, hs_user_id = default_user, hs_session_date = today,
          hs_sitting_duration = a, hs_activity_duration = b, hs_completed = c,
          hs_timestamp = utcnow\<rparr> \<and>
   health_sessions (fst (create_session store
          \<lparr>hsc_sitting_duration = a, hsc_activity_duration = b, hsc_completed = c\<rparr>
          today utcnow uuid)) =
     health_sessions store @
       [\<lparr>sd_id = uuid, sd_user_id = default_user, sd_session_date = today,
         sd_sitting_duration = a, sd_activity_duration = b, sd_completed = c,
         sd_timestamp = BsonDate (utcnow div 1000)\<rparr>] \<and>
   get_daily_progress (fst (create_session empty_db
          \<lparr>hsc_sitting_duration = a, hsc_activity_duration = b, hsc_completed = c\<rparr>
          today utcnow uuid)) today =
     \<lparr>dp_date = today, dp_total_sessions = 1,
      dp_completed_sessions = (if c then 1 else 0),
      dp_total_sitting_time = a, dp_total_activity_time = b,
      dp_sessions =
        [\<lparr>hs_id = uuid, hs_user_id = default_user, hs_session_date = today,
          hs_sitting_duration = a, hs_activity_duration = b, hs_completed = c,
          hs_timestamp = utcnow div 1000 * 1000\<rparr>]\<rparr> \<and>
   wp_daily_progress (get_weekly_progress (fst (create_session empty_db
          \<lparr>hsc_sitting_duration = a, hsc_activity_duration = b, hsc_completed = c\<rparr>
          today utcnow uuid)) today) =
     [\<lparr>ds_date = today, ds_total_sessions = 1,
       ds_completed_sessions = (if c then 1 else 0),
       ds_total_sitting_time = a, ds_total_activity_time = b\<rparr>]"
proof -
  from assms have "bson_int a" and "bson_int b"
    by (simp_all add: bson_int_def)
  then show ?thesis
    by (simp add: create_session_stored empty_db_def get_daily_progress_def
          get_weekly_progress_def to_list_def find_docs_def weekly_step_def Let_def
          HealthSession_of_def)
qed

text \<open>
  Durations -5 and -3 with \<^verbatim>\<open>completed = true\<close>, created at 1234567 microseconds: negative
  sums, one completed session, read back with the timestamp 1234000.
\<close>

theorem create_session_unvalidated_witness:
  "get_daily_progress (fst (create_session empty_db
          \<lparr>hsc_sitting_duration = - 5, hsc_activity_duration = - 3, hsc_completed = True\<rparr>
          738886 1234567 ''a'')) 738886 =
     \<lparr>dp_date = 738886, dp_total_sessions = 1, dp_completed_sessions = 1,
      dp_total_sitting_time = - 5, dp_total_activity_time = - 3,
      dp_sessions =
        [\<lparr>hs_id = ''a'', hs_user_id = default_user, hs_session_date = 738886,
          hs_sitting_duration = - 5, hs_activity_duration = - 3, hs_completed = True,
          hs_timestamp = 1234000\<rparr>]\<rparr> \<and>
   wp_daily_progress (get_weekly_progress (fst (create_session empty_db
          \<lparr>hsc_sitting_duration = - 5, hsc_activity_duration = - 3, hsc_completed = True\<rparr>
          738886 1234567 ''a'')) 738886) =
     [\<lparr>ds_date = 738886, ds_total_sessions = 1, ds_completed_sessions = 1,
       ds_total_sitting_time = - 5, ds_total_activity_time = - 3\<rparr>]"
  using create_session_unvalidated [where a = "- 5" and b = "- 3" and c = True
      and today = 738886 and utcnow = 1234567 and uuid = "''a''"]
  by simp

text \<open>
  Claim C10 as stated fails: not every integer is accepted. A request with a duration of
  \<open>2 ^ 63\<close> is neither stored nor returned, the insert raises \<^verbatim>\<open>OverflowError\<close>.
\<close>

theorem create_session_overflow_counterexample:
  "create_session empty_db
      \<lparr>hsc_sitting_duration = 9223372036854775808, hsc_activity_duration = 10,
       hsc_completed = False\<rparr>
      738886 1000 ''a'' = (empty_db, Inl OverflowError) \<and>
   create_session empty_db
      \<lparr>hsc_sitting_duration = 50, hsc_activity_duration = - 9223372036854775809,
       hsc_completed = False\<rparr>
      738886 1000 ''a'' = (empty_db, Inl OverflowError)"
  by (simp add: create_session_def Let_def session_data_of_def bson_int_def)

section \<open>Completing sessions\<close>

text \<open>
  What \<^verbatim>\<open>complete_session\<close> does in each case: no session with the id; a session whose
  \<^verbatim>\<open>$set\<close> changes something; a session that is already completed with the very timestamp
  string of this call, which the update matches but does not modify.
\<close>

lemma complete_session_store:
  "health_sessions (fst (complete_session store session_id utcnow)) =
     fst (update_one (\<lambda>s. sd_id s = session_id)
            (\<lambda>s. s\<lparr>sd_completed := True, sd_timestamp := IsoString utcnow\<rparr>)
            (health_sessions store)) \<and>
   user_settings (fst (complete_session store session_id utcnow)) = user_settings store"
  by (simp add: complete_session_def Let_def split: prod.splits option.splits)

lemma complete_session_absent:
  assumes "find_one (\<lambda>s. sd_id s = session_id) (health_sessions store) = None"
  shows "complete_session store session_id utcnow =
           (store, Inl (HTTPException 404 ''Session not found''))"
proof -
  let ?u = "update_one (\<lambda>s. sd_id s = session_id)
              (\<lambda>s. s\<lparr>sd_completed := True, sd_timestamp := IsoString utcnow\<rparr>)
              (health_sessions store)"
  from assms have m: "modified_count (snd ?u) = 0"
    by (simp add: update_one_modified)
  then have "fst ?u = health_sessions store"
    by (rule update_one_unmodified)
  with m show ?thesis
    by (simp add: complete_session_def Let_def split_beta)
qed

lemma complete_session_present:
  assumes "find_one (\<lambda>s. sd_id s = session_id) (health_sessions store) = Some d"
    and "sd_completed d \<longrightarrow> sd_timestamp d \<noteq> IsoString utcnow"
  shows "snd (complete_session store session_id utcnow) =
           Inr (HealthSession_of (d\<lparr>sd_completed := True, sd_timestamp := IsoString utcnow\<rparr>))"
proof -
  let ?f = "\<lambda>s. sd_id s = session_id"
  let ?g = "\<lambda>s. s\<lparr>sd_completed := True, sd_timestamp := IsoString utcnow\<rparr>"
  have "?g d \<noteq> d"
  proof
    assume eq: "?g d = d"
    then have "sd_completed (?g d) = sd_completed d" "sd_timestamp (?g d) = sd_timestamp d"
      by simp_all
    with assms(2) show False by simp
  qed
  with assms(1) have m: "modified_count (snd (update_one ?f ?g (health_sessions store))) \<noteq> 0"
    by (simp add: update_one_modified)
  have "find_one ?f (fst (update_one ?f ?g (health_sessions store))) =
        map_option ?g (find_one ?f (health_sessions store))"
    by (rule find_one_update_one) simp
  with assms(1) have "find_one ?f (fst (update_one ?f ?g (health_sessions store))) = Some (?g d)"
    by simp
  with m show ?thesis
    by (simp add: complete_session_def Let_def split_beta)
qed

lemma complete_session_same_instant:
  assumes "find_one (\<lambda>s. sd_id s = session_id) (health_sessions store) = Some d"
    and "sd_completed d" and "sd_timestamp d = IsoString utcnow"
  shows "complete_session store session_id utcnow =
           (store, Inl (HTTPException 404 ''Session not found''))"
proof -
  let ?f = "\<lambda>s. sd_id s = session_id"
  let ?g = "\<lambda>s. s\<lparr>sd_completed := True, sd_timestamp := IsoString utcnow\<rparr>"
  from assms(2,3) have "?g d = d" by simp
  with assms(1) have m: "modified_count (snd (update_one ?f ?g (health_sessions store))) = 0"
    by (simp add: update_one_modified)
  then have "fst (update_one ?f ?g (health_sessions store)) = health_sessions store"
    by (rule update_one_unmodified)
  with m show ?thesis
    by (simp add: complete_session_def Let_def split_beta)
qed

lemma complete_session_error_unchanged:
  assumes "snd (complete_session store session_id utcnow) = Inl e"
  shows "fst (complete_session store session_id utcnow) = store \<and>
         e = HTTPException 404 ''Session not found''"
proof (cases "find_one (\<lambda>s. sd_id s = session_id) (health_sessions store)")
  case None
  with assms show ?thesis by (simp add: complete_session_absent)
next
  case (Some d)
  show ?thesis
  proof (cases "sd_completed d \<and> sd_timestamp d = IsoString utcnow")
    case True
    with Some assms show ?thesis by (simp add: complete_session_same_instant)
  next
    case False
    with Some assms show ?thesis by (simp add: complete_session_present)
  qed
qed

lemma complete_session_not_found_iff:
  "snd (complete_session store session_id utcnow) = Inl (HTTPException 404 ''Session not found'') \<longleftrightarrow>
   (case find_one (\<lambda>s. sd_id s = session_id) (health_sessions store) of
      None \<Rightarrow> True
    | Some d \<Rightarrow> sd_completed d \<and> sd_timestamp d = IsoString utcnow)"
proof (cases "find_one (\<lambda>s. sd_id s = session_id) (health_sessions store)")
  case None
  then show ?thesis by (simp add: complete_session_absent)
next
  case (Some d)
  show ?thesis
  proof (cases "sd_completed d \<and> sd_timestamp d = IsoString utcnow")
    case True
    with Some show ?thesis by (simp add: complete_session_same_instant)
  next
    case False
    with Some have "snd (complete_session store session_id utcnow) =
        Inr (HealthSession_of (d\<lparr>sd_completed := True, sd_timestamp := IsoString utcnow\<rparr>))"
      by (intro complete_session_present) auto
    with Some False show ?thesis by auto
  qed
qed

text \<open>
  Claim C3 says that \<^verbatim>\<open>complete\<close> fails with NotFound if and only if no session has the
  id. The code raises 404 when \<^verbatim>\<open>modified_count\<close> is 0, and that also happens for a session
  that exists: here session \<open>a\<close> was created and completed at clock reading 5000, it is in
  the store, and \<^verbatim>\<open>complete_session\<close> called for it at the same clock reading answers
  ``Session not found'' (and leaves the store as it is).
\<close>

theorem complete_session_existing_not_found:
  "find_one (\<lambda>s. sd_id s = ''a'') (health_sessions (run empty_db completed_once)) =
     Some \<lparr>sd_id = ''a'', sd_user_id = default_user, sd_session_date = 738886,
           sd_sitting_duration = 50, sd_activity_duration = 10, sd_completed = True,
           sd_timestamp = IsoString 5000\<rparr> \<and>
   complete_session (run empty_db completed_once) ''a'' 5000 =
     (run empty_db completed_once, Inl (HTTPException 404 ''Session not found''))"
  by (simp add: run_completed_once complete_session_def Let_def)

text \<open>
  Completing a session that is already completed, at a clock reading later than its stored
  timestamp: the \<^verbatim>\<open>$set\<close> changes the timestamp, so the call succeeds, \<^verbatim>\<open>completed\<close> stays
  true, the timestamp moves forward to the reading of this call and the store is not the
  one before the call.
\<close>

lemma complete_session_later_reading:
  assumes "find_one (\<lambda>s. sd_id s = session_id) (health_sessions store) = Some d"
    and "sd_completed d"
    and "parse_datetime (sd_timestamp d) < utcnow"
  shows "snd (complete_session store session_id utcnow) =
           Inr ((HealthSession_of d)\<lparr>hs_timestamp := utcnow\<rparr>) \<and>
         hs_completed ((HealthSession_of d)\<lparr>hs_timestamp := utcnow\<rparr>) \<and>
         hs_timestamp (HealthSession_of d) < hs_timestamp ((HealthSession_of d)\<lparr>hs_timestamp := utcnow\<rparr>) \<and>
         find_one (\<lambda>s. sd_id s = session_id)
           (health_sessions (fst (complete_session store session_id utcnow))) =
           Some (d\<lparr>sd_timestamp := IsoString utcnow\<rparr>) \<and>
         fst (complete_session store session_id utcnow) \<noteq> store"
proof -
  let ?f = "\<lambda>s. sd_id s = session_id"
  let ?g = "\<lambda>s. s\<lparr>sd_completed := True, sd_timestamp := IsoString utcnow\<rparr>"
  from assms(3) have ne: "sd_timestamp d \<noteq> IsoString utcnow"
    by (cases "sd_timestamp d") auto
  from assms(2) have gd: "?g d = d\<lparr>sd_timestamp := IsoString utcnow\<rparr>" by simp
  from assms(1) ne have "snd (complete_session store session_id utcnow) = Inr (HealthSession_of (?g d))"
    by (simp add: complete_session_present)
  then have res: "snd (complete_session store session_id utcnow) =
           Inr ((HealthSession_of d)\<lparr>hs_timestamp := utcnow\<rparr>)"
    using assms(2) by (simp add: HealthSession_of_def)
  have "find_one ?f (fst (update_one ?f ?g (health_sessions store))) =
        map_option ?g (find_one ?f (health_sessions store))"
    by (rule find_one_update_one) simp
  with assms(1) gd have stored: "find_one ?f
      (health_sessions (fst (complete_session store session_id utcnow))) =
      Some (d\<lparr>sd_timestamp := IsoString utcnow\<rparr>)"
    by (simp add: complete_session_store)
  have changed: "fst (complete_session store session_id utcnow) \<noteq> store"
  proof
    assume "fst (complete_session store session_id utcnow) = store"
    with stored assms(1) have "d\<lparr>sd_timestamp := IsoString utcnow\<rparr> = d" by simp
    then have "sd_timestamp (d\<lparr>sd_timestamp := IsoString utcnow\<rparr>) = sd_timestamp d" by simp
    with ne show False by simp
  qed
  from assms(2,3) have "hs_completed ((HealthSession_of d)\<lparr>hs_timestamp := utcnow\<rparr>)"
    and "hs_timestamp (HealthSession_of d) < hs_timestamp ((HealthSession_of d)\<lparr>hs_timestamp := utcnow\<rparr>)"
    by (simp_all add: HealthSession_of_def)
  with res stored changed show ?thesis by blast
qed

text \<open>
  Claim C7 says that a second \<^verbatim>\<open>complete\<close> on a session that is already completed still
  succeeds and does not fail as NotFound. The code raises 404 when \<^verbatim>\<open>modified_count\<close> is 0:
  here session \<open>a\<close> is created, the first \<^verbatim>\<open>complete_session\<close> at clock reading 5000
  succeeds and returns it completed, and the second call, at the same clock reading, sets
  the values the document already holds and answers ``Session not found''.
\<close>

theorem complete_session_second_call_not_found:
  "snd (complete_session
         (run empty_db
            [Create \<lparr>hsc_sitting_duration = 50, hsc_activity_duration = 10,
                     hsc_completed = False\<rparr> 738886 1000 ''a''])
         ''a'' 5000) =
     Inr \<lparr>hs_id = ''a'', hs_user_id = default_user, hs_session_date = 738886,
          hs_sitting_duration = 50, hs_activity_duration = 10, hs_completed = True,
          hs_timestamp = 5000\<rparr> \<and>
   snd (complete_session
         (fst (complete_session
                (run empty_db
                   [Create \<lparr>hsc_sitting_duration = 50, hsc_activity_duration = 10,
                            hsc_completed = False\<rparr> 738886 1000 ''a''])
                ''a'' 5000))
         ''a'' 5000) =
     Inl (HTTPException 404 ''Session not found'')"
  by (simp add: run_def empty_db_def create_session_def complete_session_def insert_one_def
        session_data_of_def HealthSession_of_def Let_def bson_int_def)

section \<open>Settings\<close>

lemma get_user_settings_absent:
  assumes "find_one (\<lambda>s. st_user_id s = default_user) (user_settings store) = None"
  shows "get_user_settings store utcnow uuid =
     (store\<lparr>user_settings := user_settings store @
         [\<lparr>st_id = uuid, st_user_id = default_user,
           st_sitting_reminder_minutes = 50, st_activity_break_minutes = 10,
           st_notifications_enabled = True, st_sound_alerts_enabled = True,
           st_daily_goal_sessions = 8, st_timestamp = IsoString utcnow\<rparr>]\<rparr>,
      \<lparr>us_id = uuid, us_user_id = default_user,
         us_sitting_reminder_minutes = 50, us_activity_break_minutes = 10,
         us_notifications_enabled = True, us_sound_alerts_enabled = True,
         us_daily_goal_sessions = 8, us_timestamp = utcnow\<rparr>)"
  using assms
  by (simp add: get_user_settings_def Let_def insert_one_def settings_data_of_def)

lemma get_user_settings_present:
  assumes "find_one (\<lambda>s. st_user_id s = default_user) (user_settings store) = Some settings"
  shows "get_user_settings store utcnow uuid =
     (store,
      \<lparr>us_id = st_id settings, us_user_id = st_user_id settings,
           us_sitting_reminder_minutes = st_sitting_reminder_minutes settings,
           us_activity_break_minutes = st_activity_break_minutes settings,
           us_notifications_enabled = st_notifications_enabled settings,
           us_sound_alerts_enabled = st_sound_alerts_enabled settings,
           us_daily_goal_sessions = st_daily_goal_sessions settings,
           us_timestamp = parse_datetime (st_timestamp settings)\<rparr>)"
  using assms by (simp add: get_user_settings_def UserSettings_of_def)

lemma update_user_settings_overflow:
  assumes "\<not> bson_update settings_update"
  shows "update_user_settings store settings_update utcnow uuid = (store, Inl OverflowError)"
  using assms by (simp add: update_user_settings_def)

lemma update_user_settings_present:
  assumes "find_one (\<lambda>s. st_user_id s = default_user) (user_settings store) = Some old"
    and "bson_update settings_update"
  shows "update_user_settings store settings_update utcnow uuid =
     (store\<lparr>user_settings :=
         fst (update_one (\<lambda>s. st_user_id s = default_user)
                (set_update_data settings_update utcnow) (user_settings store))\<rparr>,
      Inr (UserSettings_of (set_update_data settings_update utcnow old)))"
    and "find_one (\<lambda>s. st_user_id s = default_user)
           (fst (update_one (\<lambda>s. st_user_id s = default_user)
                (set_update_data settings_update utcnow) (user_settings store))) =
         Some (set_update_data settings_update utcnow old)"
proof -
  let ?f = "\<lambda>s. st_user_id s = default_user"
  let ?g = "set_update_data settings_update utcnow"
  have "find_one ?f (fst (update_one ?f ?g (user_settings store))) =
        map_option ?g (find_one ?f (user_settings store))"
    by (rule find_one_update_one) (simp add: set_update_data_def)
  with assms(1)
  show found: "find_one ?f (fst (update_one ?f ?g (user_settings store))) = Some (?g old)"
    by simp
  from assms(1) have "matched_count (snd (update_one ?f ?g (user_settings store))) \<noteq> 0"
    by (simp add: update_one_matched)
  with found assms(2) show "update_user_settings store settings_update utcnow uuid =
     (store\<lparr>user_settings := fst (update_one ?f ?g (user_settings store))\<rparr>,
      Inr (UserSettings_of (?g old)))"
    by (simp add: update_user_settings_def Let_def split_beta)
qed

lemma update_user_settings_absent:
  assumes "find_one (\<lambda>s. st_user_id s = default_user) (user_settings store) = None"
    and "bson_update settings_update"
  shows "user_settings (fst (update_user_settings store settings_update utcnow uuid)) =
           user_settings store @
             [settings_data_of
                \<lparr>us_id = uuid, us_user_id = default_user,
                 us_sitting_reminder_minutes =
                   (case usu_sitting_reminder_minutes settings_update of
                      None \<Rightarrow> 50 | Some v \<Rightarrow> v),
                 us_activity_break_minutes =
                   (case usu_activity_break_minutes settings_update of
                      None \<Rightarrow> 10 | Some v \<Rightarrow> v),
                 us_notifications_enabled =
                   (case usu_notifications_enabled settings_update of
                      None \<Rightarrow> True | Some v \<Rightarrow> v),
                 us_sound_alerts_enabled =
                   (case usu_sound_alerts_enabled settings_update of
                      None \<Rightarrow> True | Some v \<Rightarrow> v),
                 us_daily_goal_sessions =
                   (case usu_daily_goal_sessions settings_update of
                      None \<Rightarrow> 8 | Some v \<Rightarrow> v),
                 us_timestamp = utcnow\<rparr>]"
proof -
  let ?f = "\<lambda>s. st_user_id s = default_user"
  let ?g = "set_update_data settings_update utcnow"
  from assms(1) have m: "matched_count (snd (update_one ?f ?g (user_settings store))) = 0"
    by (simp add: update_one_matched)
  then have "fst (update_one ?f ?g (user_settings store)) = user_settings store"
    by (rule update_one_unmatched)
  with m assms(2) show ?thesis
    by (simp add: update_user_settings_def Let_def split_beta insert_one_def)
qed

lemma update_user_settings_sessions:
  "health_sessions (fst (update_user_settings store settings_update utcnow uuid)) =
     health_sessions store"
  by (simp add: update_user_settings_def Let_def split_beta split: option.splits)

lemma get_user_settings_sessions:
  "health_sessions (fst (get_user_settings store utcnow uuid)) = health_sessions store"
  by (simp add: get_user_settings_def Let_def split: option.splits)

lemma UserSettings_of_set_update_data:
  "UserSettings_of (set_update_data settings_update utcnow old) =
     \<lparr>us_id = st_id old, us_user_id = st_user_id old,
              us_sitting_reminder_minutes =
                (case usu_sitting_reminder_minutes settings_update of
                   None \<Rightarrow> st_sitting_reminder_minutes old | Some v \<Rightarrow> v),
              us_activity_break_minutes =
                (case usu_activity_break_minutes settings_update of
                   None \<Rightarrow> st_activity_break_minutes old | Some v \<Rightarrow> v),
              us_notifications_enabled =
                (case usu_notifications_enabled settings_update of
                   None \<Rightarrow> st_notifications_enabled old | Some v \<Rightarrow> v),
              us_sound_alerts_enabled =
                (case usu_sound_alerts_enabled settings_update of
                   None \<Rightarrow> st_sound_alerts_enabled old | Some v \<Rightarrow> v),
              us_daily_goal_sessions =
                (case usu_daily_goal_sessions settings_update of
                   None \<Rightarrow> st_daily_goal_sessions old | Some v \<Rightarrow> v),
              us_timestamp = utcnow\<rparr>"
  by (simp add: UserSettings_of_def set_update_data_def split: option.splits)

lemma update_then_get:
  assumes "find_one (\<lambda>s. st_user_id s = default_user) (user_settings store) = Some old"
    and "bson_update settings_update"
  shows "snd (update_user_settings store settings_update utcnow uuid) =
           Inr \<lparr>us_id = st_id old, us_user_id = st_user_id old,
              us_sitting_reminder_minutes =
                (case usu_sitting_reminder_minutes settings_update of
                   None \<Rightarrow> st_sitting_reminder_minutes old | Some v \<Rightarrow> v),
              us_activity_break_minutes =
                (case usu_activity_break_minutes settings_update of
                   None \<Rightarrow> st_activity_break_minutes old | Some v \<Rightarrow> v),
              us_notifications_enabled =
                (case usu_notifications_enabled settings_update of
                   None \<Rightarrow> st_notifications_enabled old | Some v \<Rightarrow> v),
              us_sound_alerts_enabled =
                (case usu_sound_alerts_enabled settings_update of
                   None \<Rightarrow> st_sound_alerts_enabled old | Some v \<Rightarrow> v),
              us_daily_goal_sessions =
                (case usu_daily_goal_sessions settings_update of
                   None \<Rightarrow> st_daily_goal_sessions old | Some v \<Rightarrow> v),
              us_timestamp = utcnow\<rparr>"
    and "get_user_settings (fst (update_user_settings store settings_update utcnow uuid))
           utcnow' uuid' =
         (fst (update_user_settings store settings_update utcnow uuid),
          \<lparr>us_id = st_id old, us_user_id = st_user_id old,
              us_sitting_reminder_minutes =
                (case usu_sitting_reminder_minutes settings_update of
                   None \<Rightarrow> st_sitting_reminder_minutes old | Some v \<Rightarrow> v),
              us_activity_break_minutes =
                (case usu_activity_break_minutes settings_update of
                   None \<Rightarrow> st_activity_break_minutes old | Some v \<Rightarrow> v),
              us_notifications_enabled =
                (case usu_notifications_enabled settings_update of
                   None \<Rightarrow> st_notifications_enabled old | Some v \<Rightarrow> v),
              us_sound_alerts_enabled =
                (case usu_sound_alerts_enabled settings_update of
                   None \<Rightarrow> st_sound_alerts_enabled old | Some v \<Rightarrow> v),
              us_daily_goal_sessions =
                (case usu_daily_goal_sessions settings_update of
                   None \<Rightarrow> st_daily_goal_sessions old | Some v \<Rightarrow> v),
              us_timestamp = utcnow\<rparr>)"
proof -
  note upd = update_user_settings_present [OF assms, of utcnow]
  show "snd (update_user_settings store settings_update utcnow uuid) =
           Inr \<lparr>us_id = st_id old, us_user_id = st_user_id old,
              us_sitting_reminder_minutes =
                (case usu_sitting_reminder_minutes settings_update of
                   None \<Rightarrow> st_sitting_reminder_minutes old | Some v \<Rightarrow> v),
              us_activity_break_minutes =
                (case usu_activity_break_minutes settings_update of
                   None \<Rightarrow> st_activity_break_minutes old | Some v \<Rightarrow> v),
              us_notifications_enabled =
                (case usu_notifications_enabled settings_update of
                   None \<Rightarrow> st_notifications_enabled old | Some v \<Rightarrow> v),
              us_sound_alerts_enabled =
                (case usu_sound_alerts_enabled settings_update of
                   None \<Rightarrow> st_sound_alerts_enabled old | Some v \<Rightarrow> v),
              us_daily_goal_sessions =
                (case usu_daily_goal_sessions settings_update of
                   None \<Rightarrow> st_daily_goal_sessions old | Some v \<Rightarrow> v),
              us_timestamp = utcnow\<rparr>"
    by (simp only: upd(1) snd_conv UserSettings_of_set_update_data)
  have "find_one (\<lambda>s. st_user_id s = default_user)
          (user_settings (fst (update_user_settings store settings_update utcnow uuid))) =
        Some (set_update_data settings_update utcnow old)"
    by (simp add: upd)
  then have "get_user_settings (fst (update_user_settings store settings_update utcnow uuid))
           utcnow' uuid' =
         (fst (update_user_settings store settings_update utcnow uuid),
          UserSettings_of (set_update_data settings_update utcnow old))"
    by (simp add: get_user_settings_def)
  then show "get_user_settings (fst (update_user_settings store settings_update utcnow uuid))
           utcnow' uuid' =
         (fst (update_user_settings store settings_update utcnow uuid),
          \<lparr>us_id = st_id old, us_user_id = st_user_id old,
              us_sitting_reminder_minutes =
                (case usu_sitting_reminder_minutes settings_update of
                   None \<Rightarrow> st_sitting_reminder_minutes old | Some v \<Rightarrow> v),
              us_activity_break_minutes =
                (case usu_activity_break_minutes settings_update of
                   None \<Rightarrow> st_activity_break_minutes old | Some v \<Rightarrow> v),
              us_notifications_enabled =
                (case usu_notifications_enabled settings_update of
                   None \<Rightarrow> st_notifications_enabled old | Some v \<Rightarrow> v),
              us_sound_alerts_enabled =
                (case usu_sound_alerts_enabled settings_update of
                   None \<Rightarrow> st_sound_alerts_enabled old | Some v \<Rightarrow> v),
              us_daily_goal_sessions =
                (case usu_daily_goal_sessions settings_update of
                   None \<Rightarrow> st_daily_goal_sessions old | Some v \<Rightarrow> v),
              us_timestamp = utcnow\<rparr>)"
    by (simp only: UserSettings_of_set_update_data)
qed

lemma run_settings_scenario:
  "run empty_db settings_scenario =
     \<lparr>health_sessions = [],
      user_settings =
        [\<lparr>st_id = ''s'', st_user_id = default_user,
          st_sitting_reminder_minutes = 50, st_activity_break_minutes = 15,
          st_notifications_enabled = False, st_sound_alerts_enabled = True,
          st_daily_goal_sessions = 6, st_timestamp = IsoString 2000\<rparr>]\<rparr>"
  by (simp add: run_def settings_scenario_def empty_db_def get_user_settings_def
        update_user_settings_def Let_def insert_one_def settings_data_of_def
        set_update_data_def bson_update_def bson_int_def)

text \<open>
  Claim C6. Without a settings record of the default user, \<^verbatim>\<open>get_user_settings\<close> builds
  the record with the defaults 50, 10, true, true and 8, a fresh id and the current
  instant, appends it to the settings collection, where the next read finds it, and
  returns it. With a record, it leaves the store as it is and returns that record: every
  field of the result is the stored value of that field.
\<close>

theorem get_user_settings_defaults:
  "(find_one (\<lambda>s. st_user_id s = default_user) (user_settings store) = None \<longrightarrow>
      snd (get_user_settings store utcnow uuid) =
        \<lparr>us_id = uuid, us_user_id = default_user,
         us_sitting_reminder_minutes = 50, us_activity_break_minutes = 10,
         us_notifications_enabled = True, us_sound_alerts_enabled = True,
         us_daily_goal_sessions = 8, us_timestamp = utcnow\<rparr> \<and>
      user_settings (fst (get_user_settings store utcnow uuid)) =
        user_settings store @
          [\<lparr>st_id = uuid, st_user_id = default_user,
           st_sitting_reminder_minutes = 50, st_activity_break_minutes = 10,
           st_notifications_enabled = True, st_sound_alerts_enabled = True,
           st_daily_goal_sessions = 8, st_timestamp = IsoString utcnow\<rparr>] \<and>
      health_sessions (fst (get_user_settings store utcnow uuid)) = health_sessions store \<and>
      find_one (\<lambda>s. st_user_id s = default_user)
          (user_settings (fst (get_user_settings store utcnow uuid))) =
        Some \<lparr>st_id = uuid, st_user_id = default_user,
           st_sitting_reminder_minutes = 50, st_activity_break_minutes = 10,
           st_notifications_enabled = True, st_sound_alerts_enabled = True,
           st_daily_goal_sessions = 8, st_timestamp = IsoString utcnow\<rparr>) \<and>
   (\<forall>settings.
      find_one (\<lambda>s. st_user_id s = default_user) (user_settings store) = Some settings \<longrightarrow>
      fst (get_user_settings store utcnow uuid) = store \<and>
      snd (get_user_settings store utcnow uuid) =
        \<lparr>us_id = st_id settings, us_user_id = st_user_id settings,
           us_sitting_reminder_minutes = st_sitting_reminder_minutes settings,
           us_activity_break_minutes = st_activity_break_minutes settings,
           us_notifications_enabled = st_notifications_enabled settings,
           us_sound_alerts_enabled = st_sound_alerts_enabled settings,
           us_daily_goal_sessions = st_daily_goal_sessions settings,
           us_timestamp = parse_datetime (st_timestamp settings)\<rparr>)"
proof -
  have absent: "find_one (\<lambda>s. st_user_id s = default_user) (user_settings store) = None \<longrightarrow>
      snd (get_user_settings store utcnow uuid) =
        \<lparr>us_id = uuid, us_user_id = default_user,
         us_sitting_reminder_minutes = 50, us_activity_break_minutes = 10,
         us_notifications_enabled = True, us_sound_alerts_enabled = True,
         us_daily_goal_sessions = 8, us_timestamp = utcnow\<rparr> \<and>
      user_settings (fst (get_user_settings store utcnow uuid)) =
        user_settings store @
          [\<lparr>st_id = uuid, st_user_id = default_user,
           st_sitting_reminder_minutes = 50, st_activity_break_minutes = 10,
           st_notifications_enabled = True, st_sound_alerts_enabled = True,
           st_daily_goal_sessions = 8, st_timestamp = IsoString utcnow\<rparr>] \<and>
      health_sessions (fst (get_user_settings store utcnow uuid)) = health_sessions store \<and>
      find_one (\<lambda>s. st_user_id s = default_user)
          (user_settings (fst (get_user_settings store utcnow uuid))) =
        Some \<lparr>st_id = uuid, st_user_id = default_user,
           st_sitting_reminder_minutes = 50, st_activity_break_minutes = 10,
           st_notifications_enabled = True, st_sound_alerts_enabled = True,
           st_daily_goal_sessions = 8, st_timestamp = IsoString utcnow\<rparr>"
  proof
    assume none: "find_one (\<lambda>s. st_user_id s = default_user) (user_settings store) = None"
    then have "filter (\<lambda>s. st_user_id s = default_user) (user_settings store) = []"
      by (simp add: find_one_None_iff)
    then have "find_one (\<lambda>s. st_user_id s = default_user) (user_settings store @ [d]) =
               (if st_user_id d = default_user then Some d else None)" for d
      by (simp add: find_one_None_iff find_one_Some_iff)
    with none show "snd (get_user_settings store utcnow uuid) =
        \<lparr>us_id = uuid, us_user_id = default_user,
         us_sitting_reminder_minutes = 50, us_activity_break_minutes = 10,
         us_notifications_enabled = True, us_sound_alerts_enabled = True,
         us_daily_goal_sessions = 8, us_timestamp = utcnow\<rparr> \<and>
      user_settings (fst (get_user_settings store utcnow uuid)) =
        user_settings store @
          [\<lparr>st_id = uuid, st_user_id = default_user,
           st_sitting_reminder_minutes = 50, st_activity_break_minutes = 10,
           st_notifications_enabled = True, st_sound_alerts_enabled = True,
           st_daily_goal_sessions = 8, st_timestamp = IsoString utcnow\<rparr>] \<and>
      health_sessions (fst (get_user_settings store utcnow uuid)) = health_sessions store \<and>
      find_one (\<lambda>s. st_user_id s = default_user)
          (user_settings (fst (get_user_settings store utcnow uuid))) =
        Some \<lparr>st_id = uuid, st_user_id = default_user,
           st_sitting_reminder_minutes = 50, st_activity_break_minutes = 10,
           st_notifications_enabled = True, st_sound_alerts_enabled = True,
           st_daily_goal_sessions = 8, st_timestamp = IsoString utcnow\<rparr>"
      by (simp add: get_user_settings_absent)
  qed
  have present: "\<forall>settings.
      find_one (\<lambda>s. st_user_id s = default_user) (user_settings store) = Some settings \<longrightarrow>
      fst (get_user_settings store utcnow uuid) = store \<and>
      snd (get_user_settings store utcnow uuid) =
        \<lparr>us_id = st_id settings, us_user_id = st_user_id settings,
           us_sitting_reminder_minutes = st_sitting_reminder_minutes settings,
           us_activity_break_minutes = st_activity_break_minutes settings,
           us_notifications_enabled = st_notifications_enabled settings,
           us_sound_alerts_enabled = st_sound_alerts_enabled settings,
           us_daily_goal_sessions = st_daily_goal_sessions settings,
           us_timestamp = parse_datetime (st_timestamp settings)\<rparr>"
    by (simp add: get_user_settings_present)
  from absent present show ?thesis by (rule conjI)
qed

text \<open>
  The first read on the empty store creates and stores the defaults. On a store whose
  record was changed to 15 minutes of break, notifications off and a goal of 6, the read
  returns those values with the timestamp of the change, and the store stays as it is.
\<close>

theorem get_user_settings_defaults_witness:
  "get_user_settings empty_db 1000 ''s'' =
     (\<lparr>health_sessions = [],
       user_settings =
         [\<lparr>st_id = ''s'', st_user_id = default_user,
           st_sitting_reminder_minutes = 50, st_activity_break_minutes = 10,
           st_notifications_enabled = True, st_sound_alerts_enabled = True,
           st_daily_goal_sessions = 8, st_timestamp = IsoString 1000\<rparr>]\<rparr>,
      \<lparr>us_id = ''s'', us_user_id = default_user,
         us_sitting_reminder_minutes = 50, us_activity_break_minutes = 10,
         us_notifications_enabled = True, us_sound_alerts_enabled = True,
         us_daily_goal_sessions = 8, us_timestamp = 1000\<rparr>) \<and>
   get_user_settings (run empty_db settings_scenario) 3000 ''v'' =
     (run empty_db settings_scenario,
      \<lparr>us_id = ''s'', us_user_id = default_user,
       us_sitting_reminder_minutes = 50, us_activity_break_minutes = 15,
       us_notifications_enabled = False, us_sound_alerts_enabled = True,
       us_daily_goal_sessions = 6, us_timestamp = 2000\<rparr>)"
proof -
  have none: "find_one (\<lambda>s. st_user_id s = default_user) (user_settings empty_db) = None"
    by (simp add: empty_db_def)
  with get_user_settings_defaults [of empty_db 1000 "''s''"]
  have res: "snd (get_user_settings empty_db 1000 ''s'') =
        \<lparr>us_id = ''s'', us_user_id = default_user,
         us_sitting_reminder_minutes = 50, us_activity_break_minutes = 10,
         us_notifications_enabled = True, us_sound_alerts_enabled = True,
         us_daily_goal_sessions = 8, us_timestamp = 1000\<rparr>"
    and stored: "user_settings (fst (get_user_settings empty_db 1000 ''s'')) =
        user_settings empty_db @
          [\<lparr>st_id = ''s'', st_user_id = default_user,
           st_sitting_reminder_minutes = 50, st_activity_break_minutes = 10,
           st_notifications_enabled = True, st_sound_alerts_enabled = True,
           st_daily_goal_sessions = 8, st_timestamp = IsoString 1000\<rparr>]"
    and sess: "health_sessions (fst (get_user_settings empty_db 1000 ''s'')) =
        health_sessions empty_db"
    by blast+
  from stored sess have "fst (get_user_settings empty_db 1000 ''s'') =
     \<lparr>health_sessions = [],
       user_settings =
         [\<lparr>st_id = ''s'', st_user_id = default_user,
           st_sitting_reminder_minutes = 50, st_activity_break_minutes = 10,
           st_notifications_enabled = True, st_sound_alerts_enabled = True,
           st_daily_goal_sessions = 8, st_timestamp = IsoString 1000\<rparr>]\<rparr>"
    by (cases "fst (get_user_settings empty_db 1000 ''s'')") (simp add: empty_db_def)
  with res have first: "get_user_settings empty_db 1000 ''s'' =
     (\<lparr>health_sessions = [],
       user_settings =
         [\<lparr>st_id = ''s'', st_user_id = default_user,
           st_sitting_reminder_minutes = 50, st_activity_break_minutes = 10,
           st_notifications_enabled = True, st_sound_alerts_enabled = True,
           st_daily_goal_sessions = 8, st_timestamp = IsoString 1000\<rparr>]\<rparr>,
      \<lparr>us_id = ''s'', us_user_id = default_user,
         us_sitting_reminder_minutes = 50, us_activity_break_minutes = 10,
         us_notifications_enabled = True, us_sound_alerts_enabled = True,
         us_daily_goal_sessions = 8, us_timestamp = 1000\<rparr>)"
    by (simp add: prod_eq_iff)
  let ?d = "\<lparr>st_id = ''s'', st_user_id = default_user,
          st_sitting_reminder_minutes = 50, st_activity_break_minutes = 15,
          st_notifications_enabled = False, st_sound_alerts_enabled = True,
          st_daily_goal_sessions = 6, st_timestamp = IsoString 2000\<rparr>"
  have found: "find_one (\<lambda>s. st_user_id s = default_user)
      (user_settings (run empty_db settings_scenario)) = Some ?d"
    by (simp add: run_settings_scenario)
  with get_user_settings_defaults [of "run empty_db settings_scenario" 3000 "''v''"]
  have "fst (get_user_settings (run empty_db settings_scenario) 3000 ''v'') =
          run empty_db settings_scenario \<and>
        snd (get_user_settings (run empty_db settings_scenario) 3000 ''v'') =
          \<lparr>us_id = st_id ?d, us_user_id = st_user_id ?d,
           us_sitting_reminder_minutes = st_sitting_reminder_minutes ?d,
           us_activity_break_minutes = st_activity_break_minutes ?d,
           us_notifications_enabled = st_notifications_enabled ?d,
           us_sound_alerts_enabled = st_sound_alerts_enabled ?d,
           us_daily_goal_sessions = st_daily_goal_sessions ?d,
           us_timestamp = parse_datetime (st_timestamp ?d)\<rparr>"
    by blast
  then have second: "get_user_settings (run empty_db settings_scenario) 3000 ''v'' =
     (run empty_db settings_scenario,
      \<lparr>us_id = ''s'', us_user_id = default_user,
       us_sitting_reminder_minutes = 50, us_activity_break_minutes = 15,
       us_notifications_enabled = False, us_sound_alerts_enabled = True,
       us_daily_goal_sessions = 6, us_timestamp = 2000\<rparr>)"
    by (simp add: prod_eq_iff)
  from first second show ?thesis by (rule conjI)
qed

text \<open>
  Claim C5, as the code has it. With a settings record in the store and a partial update
  whose integers fit the store's signed 64-bit integers, \<^verbatim>\<open>update_user_settings\<close> returns
  the record whose provided fields are the new values, whose omitted fields and id are the
  stored ones and whose timestamp is the current instant, and a following
  \<^verbatim>\<open>get_user_settings\<close> returns the same record without changing the store. In particular
  an update of \<^verbatim>\<open>sitting_reminder_minutes\<close> to 60 followed by a read gives 60 with every other
  setting as stored before, and the empty update changes nothing but the timestamp.
  Sessions are untouched and no settings record is added.
\<close>

theorem update_user_settings_merges:
  assumes "find_one (\<lambda>s. st_user_id s = default_user) (user_settings store) = Some old"
    and "bson_update settings_update"
  shows "snd (update_user_settings store settings_update utcnow uuid) =
           Inr \<lparr>us_id = st_id old, us_user_id = st_user_id old,
              us_sitting_reminder_minutes =
                (case usu_sitting_reminder_minutes settings_update of
                   None \<Rightarrow> st_sitting_reminder_minutes old | Some v \<Rightarrow> v),
              us_activity_break_minutes =
                (case usu_activity_break_minutes settings_update of
                   None \<Rightarrow> st_activity_break_minutes old | Some v \<Rightarrow> v),
              us_notifications_enabled =
                (case usu_notifications_enabled settings_update of
                   None \<Rightarrow> st_notifications_enabled old | Some v \<Rightarrow> v),
              us_sound_alerts_enabled =
                (case usu_sound_alerts_enabled settings_update of
                   None \<Rightarrow> st_sound_alerts_enabled old | Some v \<Rightarrow> v),
              us_daily_goal_sessions =
                (case usu_daily_goal_sessions settings_update of
                   None \<Rightarrow> st_daily_goal_sessions old | Some v \<Rightarrow> v),
              us_timestamp = utcnow\<rparr> \<and>
         get_user_settings (fst (update_user_settings store settings_update utcnow uuid))
             utcnow' uuid' =
           (fst (update_user_settings store settings_update utcnow uuid),
            \<lparr>us_id = st_id old, us_user_id = st_user_id old,
              us_sitting_reminder_minutes =
                (case usu_sitting_reminder_minutes settings_update of
                   None \<Rightarrow> st_sitting_reminder_minutes old | Some v \<Rightarrow> v),
              us_activity_break_minutes =
                (case usu_activity_break_minutes settings_update of
                   None \<Rightarrow> st_activity_break_minutes old | Some v \<Rightarrow> v),
              us_notifications_enabled =
                (case usu_notifications_enabled settings_update of
                   None \<Rightarrow> st_notifications_enabled old | Some v \<Rightarrow> v),
              us_sound_alerts_enabled =
                (case usu_sound_alerts_enabled settings_update of
                   None \<Rightarrow> st_sound_alerts_enabled old | Some v \<Rightarrow> v),
              us_daily_goal_sessions =
                (case usu_daily_goal_sessions settings_update of
                   None \<Rightarrow> st_daily_goal_sessions old | Some v \<Rightarrow> v),
              us_timestamp = utcnow\<rparr>) \<and>
         snd (get_user_settings
                (fst (update_user_settings store
                        \<lparr>usu_sitting_reminder_minutes = Some 60, usu_activity_break_minutes = None,
                  usu_notifications_enabled = None, usu_sound_alerts_enabled = None,
                  usu_daily_goal_sessions = None\<rparr> utcnow uuid))
                utcnow' uuid') =
           \<lparr>us_id = st_id old, us_user_id = st_user_id old,
              us_sitting_reminder_minutes = 60,
              us_activity_break_minutes = st_activity_break_minutes old,
              us_notifications_enabled = st_notifications_enabled old,
              us_sound_alerts_enabled = st_sound_alerts_enabled old,
              us_daily_goal_sessions = st_daily_goal_sessions old,
              us_timestamp = utcnow\<rparr> \<and>
         snd (update_user_settings store
                \<lparr>usu_sitting_reminder_minutes = None, usu_activity_break_minutes = None,
                  usu_notifications_enabled = None, usu_sound_alerts_enabled = None,
                  usu_daily_goal_sessions = None\<rparr> utcnow uuid) =
           Inr \<lparr>us_id = st_id old, us_user_id = st_user_id old,
              us_sitting_reminder_minutes = st_sitting_reminder_minutes old,
              us_activity_break_minutes = st_activity_break_minutes old,
              us_notifications_enabled = st_notifications_enabled old,
              us_sound_alerts_enabled = st_sound_alerts_enabled old,
              us_daily_goal_sessions = st_daily_goal_sessions old,
              us_timestamp = utcnow\<rparr> \<and>
         health_sessions (fst (update_user_settings store settings_update utcnow uuid)) =
           health_sessions store \<and>
         length (user_settings (fst (update_user_settings store settings_update utcnow uuid))) =
           length (user_settings store)"
proof -
  have enc60: "bson_update \<lparr>usu_sitting_reminder_minutes = Some 60, usu_activity_break_minutes = None,
                  usu_notifications_enabled = None, usu_sound_alerts_enabled = None,
                  usu_daily_goal_sessions = None\<rparr>"
    and encE: "bson_update \<lparr>usu_sitting_reminder_minutes = None, usu_activity_break_minutes = None,
                  usu_notifications_enabled = None, usu_sound_alerts_enabled = None,
                  usu_daily_goal_sessions = None\<rparr>"
    by (simp_all add: bson_update_def bson_int_def)
  have len: "length (user_settings (fst (update_user_settings store settings_update utcnow uuid))) =
           length (user_settings store)"
    by (simp add: update_user_settings_present(1) [OF assms] update_one_length)
  have sixty: "snd (get_user_settings
                (fst (update_user_settings store
                        \<lparr>usu_sitting_reminder_minutes = Some 60, usu_activity_break_minutes = None,
                  usu_notifications_enabled = None, usu_sound_alerts_enabled = None,
                  usu_daily_goal_sessions = None\<rparr> utcnow uuid))
                utcnow' uuid') =
           \<lparr>us_id = st_id old, us_user_id = st_user_id old,
              us_sitting_reminder_minutes = 60,
              us_activity_break_minutes = st_activity_break_minutes old,
              us_notifications_enabled = st_notifications_enabled old,
              us_sound_alerts_enabled = st_sound_alerts_enabled old,
              us_daily_goal_sessions = st_daily_goal_sessions old,
              us_timestamp = utcnow\<rparr>"
    by (simp add: update_then_get(2) [OF assms(1) enc60])
  have empty: "snd (update_user_settings store
                \<lparr>usu_sitting_reminder_minutes = None, usu_activity_break_minutes = None,
                  usu_notifications_enabled = None, usu_sound_alerts_enabled = None,
                  usu_daily_goal_sessions = None\<rparr> utcnow uuid) =
           Inr \<lparr>us_id = st_id old, us_user_id = st_user_id old,
              us_sitting_reminder_minutes = st_sitting_reminder_minutes old,
              us_activity_break_minutes = st_activity_break_minutes old,
              us_notifications_enabled = st_notifications_enabled old,
              us_sound_alerts_enabled = st_sound_alerts_enabled old,
              us_daily_goal_sessions = st_daily_goal_sessions old,
              us_timestamp = utcnow\<rparr>"
    by (simp add: update_then_get(1) [OF assms(1) encE])
  from update_then_get [OF assms] sixty empty
    update_user_settings_sessions [of store settings_update utcnow uuid] len
  show ?thesis by blast
qed

text \<open>
  On the record with 15 minutes of break, notifications off and a goal of 6: the update to
  60 followed by a read, and the empty update.
\<close>

theorem update_user_settings_merges_witness:
  "snd (get_user_settings
         (fst (update_user_settings (run empty_db settings_scenario)
                 \<lparr>usu_sitting_reminder_minutes = Some 60, usu_activity_break_minutes = None,
                  usu_notifications_enabled = None, usu_sound_alerts_enabled = None,
                  usu_daily_goal_sessions = None\<rparr> 4000 ''t''))
         5000 ''v'') =
     \<lparr>us_id = ''s'', us_user_id = default_user,
      us_sitting_reminder_minutes = 60, us_activity_break_minutes = 15,
      us_notifications_enabled = False, us_sound_alerts_enabled = True,
      us_daily_goal_sessions = 6, us_timestamp = 4000\<rparr> \<and>
   snd (update_user_settings (run empty_db settings_scenario)
          \<lparr>usu_sitting_reminder_minutes = None, usu_activity_break_minutes = None,
                  usu_notifications_enabled = None, usu_sound_alerts_enabled = None,
                  usu_daily_goal_sessions = None\<rparr> 4000 ''t'') =
     Inr \<lparr>us_id = ''s'', us_user_id = default_user,
          us_sitting_reminder_minutes = 50, us_activity_break_minutes = 15,
          us_notifications_enabled = False, us_sound_alerts_enabled = True,
          us_daily_goal_sessions = 6, us_timestamp = 4000\<rparr>"
proof -
  let ?old = "\<lparr>st_id = ''s'', st_user_id = default_user,
          st_sitting_reminder_minutes = 50, st_activity_break_minutes = 15,
          st_notifications_enabled = False, st_sound_alerts_enabled = True,
          st_daily_goal_sessions = 6, st_timestamp = IsoString 2000\<rparr>"
  have found: "find_one (\<lambda>s. st_user_id s = default_user)
      (user_settings (run empty_db settings_scenario)) = Some ?old"
    by (simp add: run_settings_scenario)
  have enc: "bson_update \<lparr>usu_sitting_reminder_minutes = Some 60, usu_activity_break_minutes = None,
                  usu_notifications_enabled = None, usu_sound_alerts_enabled = None,
                  usu_daily_goal_sessions = None\<rparr>"
    by (simp add: bson_update_def bson_int_def)
  from update_user_settings_merges [OF found enc, where utcnow = 4000 and uuid = "''t''"
      and utcnow' = 5000 and uuid' = "''v''"]
  have sixty: "snd (get_user_settings
         (fst (update_user_settings (run empty_db settings_scenario)
                 \<lparr>usu_sitting_reminder_minutes = Some 60, usu_activity_break_minutes = None,
                  usu_notifications_enabled = None, usu_sound_alerts_enabled = None,
                  usu_daily_goal_sessions = None\<rparr> 4000 ''t''))
         5000 ''v'') =
       \<lparr>us_id = st_id ?old, us_user_id = st_user_id ?old,
              us_sitting_reminder_minutes = 60,
              us_activity_break_minutes = st_activity_break_minutes ?old,
              us_notifications_enabled = st_notifications_enabled ?old,
              us_sound_alerts_enabled = st_sound_alerts_enabled ?old,
              us_daily_goal_sessions = st_daily_goal_sessions ?old,
              us_timestamp = 4000\<rparr>"
    and empty: "snd (update_user_settings (run empty_db settings_scenario)
          \<lparr>usu_sitting_reminder_minutes = None, usu_activity_break_minutes = None,
                  usu_notifications_enabled = None, usu_sound_alerts_enabled = None,
                  usu_daily_goal_sessions = None\<rparr> 4000 ''t'') =
       Inr \<lparr>us_id = st_id ?old, us_user_id = st_user_id ?old,
              us_sitting_reminder_minutes = st_sitting_reminder_minutes ?old,
              us_activity_break_minutes = st_activity_break_minutes ?old,
              us_notifications_enabled = st_notifications_enabled ?old,
              us_sound_alerts_enabled = st_sound_alerts_enabled ?old,
              us_daily_goal_sessions = st_daily_goal_sessions ?old,
              us_timestamp = 4000\<rparr>"
    by blast+
  show ?thesis
    unfolding sixty empty by simp
qed

text \<open>
  Claim C5 as stated fails: not every partial update is applied. On the stored default
  record, an update of \<^verbatim>\<open>sitting_reminder_minutes\<close> to \<open>2 ^ 63\<close> raises \<^verbatim>\<open>OverflowError\<close> in
  \<^verbatim>\<open>update_one\<close>, returns no record and leaves the store, the field and the timestamp as
  they were.
\<close>

theorem update_user_settings_overflow_counterexample:
  "find_one (\<lambda>s. st_user_id s = default_user)
     (user_settings (run empty_db [SettingsGet 1000 ''s''])) =
     Some \<lparr>st_id = ''s'', st_user_id = default_user,
           st_sitting_reminder_minutes = 50, st_activity_break_minutes = 10,
           st_notifications_enabled = True, st_sound_alerts_enabled = True,
           st_daily_goal_sessions = 8, st_timestamp = IsoString 1000\<rparr> \<and>
   update_user_settings (run empty_db [SettingsGet 1000 ''s''])
     \<lparr>usu_sitting_reminder_minutes = Some 9223372036854775808,
      usu_activity_break_minutes = None, usu_notifications_enabled = None,
      usu_sound_alerts_enabled = None, usu_daily_goal_sessions = None\<rparr> 2000 ''t'' =
     (run empty_db [SettingsGet 1000 ''s''], Inl OverflowError)"
  by (simp add: run_settings_get update_user_settings_def bson_update_def bson_int_def)

lemma settings_count_zero:
  "settings_count default_user store = 0 \<longleftrightarrow>
   find_one (\<lambda>s. st_user_id s = default_user) (user_settings store) = None"
  by (simp add: settings_count_def find_one_None_iff)

lemma step_settings_count:
  "settings_count u (step store op) = settings_count u store \<or>
   (u = default_user \<and> settings_count default_user store = 0 \<and>
    settings_count u (step store op) = 1)"
proof (cases op)
  case (Create session today utcnow uuid)
  then show ?thesis
    by (simp add: settings_count_def create_session_def Let_def)
next
  case (ListToday today)
  then show ?thesis by simp
next
  case (Daily today)
  then show ?thesis by simp
next
  case (Weekly today)
  then show ?thesis by simp
next
  case (Complete session_id utcnow)
  then show ?thesis
    by (simp add: settings_count_def complete_session_store)
next
  case (SettingsGet utcnow uuid)
  show ?thesis
  proof (cases "find_one (\<lambda>s. st_user_id s = default_user) (user_settings store)")
    case None
    then have "filter (\<lambda>s. st_user_id s = default_user) (user_settings store) = []"
      by (simp add: find_one_None_iff)
    with None SettingsGet show ?thesis
      by (auto simp: settings_count_def get_user_settings_absent)
  next
    case (Some settings)
    with SettingsGet show ?thesis
      by (simp add: get_user_settings_present)
  qed
next
  case (SettingsUpdate settings_update utcnow uuid)
  show ?thesis
  proof (cases "bson_update settings_update")
    case False
    with SettingsUpdate show ?thesis
      by (simp add: update_user_settings_overflow)
  next
    case enc: True
    show ?thesis
    proof (cases "find_one (\<lambda>s. st_user_id s = default_user) (user_settings store)")
      case None
      then have "filter (\<lambda>s. st_user_id s = default_user) (user_settings store) = []"
        by (simp add: find_one_None_iff)
      with SettingsUpdate
        update_user_settings_absent [OF None enc, where utcnow = utcnow and uuid = uuid]
      show ?thesis
        by (auto simp: settings_count_def settings_data_of_def)
    next
      case (Some old)
      have "length (filter (\<lambda>s. st_user_id s = u)
              (fst (update_one (\<lambda>s. st_user_id s = default_user)
                      (set_update_data settings_update utcnow) (user_settings store)))) =
            length (filter (\<lambda>s. st_user_id s = u) (user_settings store))"
        by (rule filter_update_one) (simp add: set_update_data_def)
      with SettingsUpdate show ?thesis
        by (simp add: settings_count_def update_user_settings_present(1) [OF Some enc])
    qed
  qed
qed

lemma step_at_most_one:
  "settings_count u store \<le> 1 \<Longrightarrow> settings_count u (step store op) \<le> 1"
  using step_settings_count [of u store op] by auto

lemma step_other_user:
  "u \<noteq> default_user \<Longrightarrow> settings_count u (step store op) = settings_count u store"
  using step_settings_count [of u store op] by auto

lemma run_at_most_one:
  "settings_count u store \<le> 1 \<Longrightarrow> settings_count u (run store ops) \<le> 1"
proof (induction ops arbitrary: store)
  case Nil
  then show ?case by (simp only: run_Nil)
next
  case (Cons op ops)
  from Cons.prems have "settings_count u (step store op) \<le> 1"
    by (rule step_at_most_one)
  then have "settings_count u (run (step store op) ops) \<le> 1"
    by (rule Cons.IH)
  then show ?case by (simp only: run_Cons)
qed

text \<open>
  Claim C8. From a store with at most one settings record of the default user, every
  sequence of requests (reads and updates of the settings, and the session requests as
  well) leads to a store with at most one. A read inserts only when there is no record,
  an update only when it matched none, and then there is exactly one.
\<close>

theorem settings_singleton_invariant:
  assumes "settings_count default_user store \<le> 1"
  shows "settings_count default_user (run store ops) \<le> 1 \<and>
         (user_settings (fst (get_user_settings store utcnow uuid)) \<noteq> user_settings store \<longrightarrow>
            settings_count default_user store = 0 \<and>
            settings_count default_user (fst (get_user_settings store utcnow uuid)) = 1) \<and>
         (length (user_settings (fst (update_user_settings store settings_update utcnow uuid))) \<noteq>
            length (user_settings store) \<longrightarrow>
            settings_count default_user store = 0 \<and>
            settings_count default_user
              (fst (update_user_settings store settings_update utcnow uuid)) = 1)"
proof -
  have seq: "settings_count default_user (run store ops) \<le> 1"
    using assms by (rule run_at_most_one)
  have get: "user_settings (fst (get_user_settings store utcnow uuid)) \<noteq> user_settings store \<longrightarrow>
            settings_count default_user store = 0 \<and>
            settings_count default_user (fst (get_user_settings store utcnow uuid)) = 1"
  proof (cases "find_one (\<lambda>s. st_user_id s = default_user) (user_settings store)")
    case None
    then have "filter (\<lambda>s. st_user_id s = default_user) (user_settings store) = []"
      by (simp add: find_one_None_iff)
    with None show ?thesis
      by (simp add: settings_count_def get_user_settings_absent)
  next
    case (Some settings)
    then show ?thesis by (simp add: get_user_settings_present)
  qed
  have upd: "length (user_settings (fst (update_user_settings store settings_update utcnow uuid))) \<noteq>
            length (user_settings store) \<longrightarrow>
            settings_count default_user store = 0 \<and>
            settings_count default_user
              (fst (update_user_settings store settings_update utcnow uuid)) = 1"
  proof (cases "bson_update settings_update")
    case False
    then show ?thesis by (simp add: update_user_settings_overflow)
  next
    case enc: True
    show ?thesis
    proof (cases "find_one (\<lambda>s. st_user_id s = default_user) (user_settings store)")
      case None
      then have "filter (\<lambda>s. st_user_id s = default_user) (user_settings store) = []"
        by (simp add: find_one_None_iff)
      with update_user_settings_absent [OF None enc, where utcnow = utcnow and uuid = uuid]
      show ?thesis
        by (simp add: settings_count_def settings_data_of_def)
    next
      case (Some old)
      then show ?thesis
        by (simp add: update_user_settings_present(1) [OF Some enc] update_one_length)
    qed
  qed
  from seq get upd show ?thesis by blast
qed

text \<open>
  From the empty store: a read and an update leave one record, and so does any longer
  sequence; the first read does insert.
\<close>

theorem settings_singleton_invariant_witness:
  "settings_count default_user empty_db \<le> 1 \<and>
   settings_count default_user (run empty_db settings_scenario) = 1 \<and>
   settings_count default_user
     (run empty_db (settings_scenario @ [SettingsGet 3000 ''v''] @ settings_scenario)) \<le> 1 \<and>
   user_settings (fst (get_user_settings empty_db 1000 ''s'')) \<noteq> user_settings empty_db"
proof -
  have start: "settings_count default_user empty_db \<le> 1"
    by (simp add: settings_count_def empty_db_def)
  have once: "settings_count default_user (run empty_db settings_scenario) = 1"
    by (simp add: settings_count_def run_def settings_scenario_def empty_db_def
          get_user_settings_def update_user_settings_def Let_def insert_one_def
          settings_data_of_def set_update_data_def)
  have ins: "user_settings (fst (get_user_settings empty_db 1000 ''s'')) \<noteq> user_settings empty_db"
    by (simp add: empty_db_def get_user_settings_def Let_def insert_one_def)
  from settings_singleton_invariant [OF start, of "settings_scenario @ [SettingsGet 3000 ''v''] @ settings_scenario"]
    start once ins show ?thesis by blast
qed

section \<open>Stored sessions over time\<close>

lemma session_evolves_refl: "session_evolves d d"
  by (simp add: session_evolves_def)

lemma session_evolves_trans:
  "session_evolves d d' \<Longrightarrow> session_evolves d' d'' \<Longrightarrow> session_evolves d d''"
  by (simp add: session_evolves_def)

lemma step_sessions_length:
  "length (health_sessions store) \<le> length (health_sessions (step store op))"
  by (cases op)
     (simp_all add: create_session_def Let_def insert_one_def complete_session_store
        update_one_length get_user_settings_sessions update_user_settings_sessions)

lemma step_complete_nth:
  assumes "i < length (health_sessions store)"
  shows "health_sessions (step store (Complete session_id utcnow)) ! i = health_sessions store ! i \<or>
         health_sessions (step store (Complete session_id utcnow)) ! i =
           (health_sessions store ! i)\<lparr>sd_completed := True, sd_timestamp := IsoString utcnow\<rparr>"
  using update_one_nth [OF assms, of "\<lambda>s. sd_id s = session_id"
      "\<lambda>s. s\<lparr>sd_completed := True, sd_timestamp := IsoString utcnow\<rparr>"]
  by (auto simp: complete_session_store)

lemma step_other_nth:
  assumes "i < length (health_sessions store)" and "\<forall>session_id utcnow. op \<noteq> Complete session_id utcnow"
  shows "health_sessions (step store op) ! i = health_sessions store ! i"
  using assms
  by (cases op)
     (simp_all add: create_session_def Let_def insert_one_def nth_append
        get_user_settings_sessions update_user_settings_sessions)

lemma step_session_evolves:
  assumes "i < length (health_sessions store)"
  shows "session_evolves (health_sessions store ! i) (health_sessions (step store op) ! i)"
proof (cases "\<forall>session_id utcnow. op \<noteq> Complete session_id utcnow")
  case True
  with assms show ?thesis by (simp add: step_other_nth session_evolves_refl)
next
  case False
  then obtain session_id utcnow where "op = Complete session_id utcnow" by blast
  with step_complete_nth [OF assms, of session_id utcnow] show ?thesis
    by (auto simp: session_evolves_def)
qed

lemma run_session_evolves:
  "i < length (health_sessions store) \<Longrightarrow>
   i < length (health_sessions (run store ops)) \<and>
   session_evolves (health_sessions store ! i) (health_sessions (run store ops) ! i)"
proof (induction ops arbitrary: store)
  case Nil
  then show ?case by (simp add: run_Nil session_evolves_refl)
next
  case (Cons op ops)
  from Cons.prems step_sessions_length [of store op]
  have i: "i < length (health_sessions (step store op))" by simp
  from Cons.IH [OF i] step_session_evolves [OF Cons.prems, of op]
  show ?case
    by (auto simp: run_Cons intro: session_evolves_trans)
qed

text \<open>
  Claim C9. Over any sequence of requests every stored session stays in the store with
  its id, user, date and durations, and once \<^verbatim>\<open>completed\<close> is true it stays true. A request
  other than \<^verbatim>\<open>complete\<close> leaves every stored session as it is; \<^verbatim>\<open>complete\<close> leaves a
  session as it is or sets its \<^verbatim>\<open>completed\<close> to true and its timestamp to the current
  instant, and neither adds nor removes a session.
\<close>

theorem session_completed_monotone:
  "(\<forall>i < length (health_sessions store).
      i < length (health_sessions (run store ops)) \<and>
      session_evolves (health_sessions store ! i) (health_sessions (run store ops) ! i)) \<and>
   (\<forall>i < length (health_sessions store).
      (\<forall>session_id utcnow. op \<noteq> Complete session_id utcnow) \<longrightarrow>
      health_sessions (step store op) ! i = health_sessions store ! i) \<and>
   (\<forall>i < length (health_sessions store).
      health_sessions (step store (Complete session_id utcnow)) ! i = health_sessions store ! i \<or>
      health_sessions (step store (Complete session_id utcnow)) ! i =
        (health_sessions store ! i)\<lparr>sd_completed := True, sd_timestamp := IsoString utcnow\<rparr>) \<and>
   length (health_sessions (step store (Complete session_id utcnow))) =
     length (health_sessions store)"
proof -
  have "length (health_sessions (step store (Complete session_id utcnow))) =
     length (health_sessions store)"
    by (simp add: complete_session_store update_one_length)
  with run_session_evolves [of _ store ops] step_other_nth [of _ store op]
    step_complete_nth [of _ store session_id utcnow]
  show ?thesis by blast
qed

text \<open>
  The completed session \<open>a\<close> is still completed, and still \<open>a\<close>, after a mixed sequence
  of requests.
\<close>

theorem session_completed_monotone_witness:
  "0 < length (health_sessions (run empty_db completed_once)) \<and>
   sd_completed (health_sessions (run empty_db completed_once) ! 0) \<and>
   sd_completed (health_sessions (run (run empty_db completed_once) later_ops) ! 0) \<and>
   sd_id (health_sessions (run (run empty_db completed_once) later_ops) ! 0) = ''a''"
proof -
  have len: "0 < length (health_sessions (run empty_db completed_once))"
    and before: "sd_completed (health_sessions (run empty_db completed_once) ! 0)"
    and ident: "sd_id (health_sessions (run empty_db completed_once) ! 0) = ''a''"
    by (simp_all add: run_completed_once)
  from session_completed_monotone [of "run empty_db completed_once" later_ops] len
  have "session_evolves (health_sessions (run empty_db completed_once) ! 0)
          (health_sessions (run (run empty_db completed_once) later_ops) ! 0)"
    by blast
  with len before ident show ?thesis
    by (simp add: session_evolves_def)
qed

end
